theory Spec2Isabelle
  imports Complex_Main "HOL-Library.Char_ord" "HOL-Library.List_Lexorder" "HOL-Library.Multiset"
begin

section \<open>Inventory store: data model\<close>

text \<open>
  The storage layer (\<^verbatim>\<open>server/sqlite-storage.ts\<close>) talks to one SQLite database whose
  tables are declared in \<^verbatim>\<open>shared/sqlite-schema.ts\<close> and created in
  \<^verbatim>\<open>server/init-db.ts\<close>. A table is a list of rows in rowid order. Nullable columns
  are \<open>option\<close>s, SQLite INTEGER columns are \<open>int\<close>, timestamps are the stored integers.
  REAL columns and JavaScript numbers are modelled by exact rationals: comparisons of
  finite doubles agree with comparisons of the rationals they denote; sums and products
  are taken without rounding.
\<close>

record category =
  c_id :: int
  c_name :: string
  c_code :: string
  c_description :: "string option"
  c_image :: "string option"
  c_createdAt :: int

record product =
  p_id :: int
  p_name :: string
  p_sku :: string
  p_category :: string
  p_price :: rat
  p_stockQuantity :: int
  p_description :: "string option"
  p_details :: "string option"
  p_brand :: "string option"
  p_model :: "string option"
  p_weight :: "rat option"
  p_length :: "rat option"
  p_width :: "rat option"
  p_height :: "rat option"
  p_imageUrl :: "string option"
  p_barcodeType :: string
  p_barcodeData :: "string option"
  p_isActive :: bool
  p_isFeatured :: bool
  p_tags :: "string option"
  p_createdAt :: int
  p_updatedAt :: int

record productImage =
  pi_id :: int
  pi_productId :: int
  pi_imageUrl :: string
  pi_alt :: "string option"
  pi_isPrimary :: bool
  pi_sortOrder :: int

record productReview =
  pr_id :: int
  pr_productId :: int
  pr_customerName :: string
  pr_customerEmail :: "string option"
  pr_rating :: int
  pr_reviewText :: "string option"
  pr_isVerified :: bool
  pr_createdAt :: int

record wishlistItem =
  w_id :: int
  w_sessionId :: string
  w_productId :: int
  w_createdAt :: int

record receipt =
  r_id :: int
  r_receiptNumber :: string
  r_customerName :: "string option"
  r_businessName :: string
  r_businessAddress :: "string option"
  r_businessPhone :: "string option"
  r_subtotal :: rat
  r_taxRate :: rat
  r_taxAmount :: rat
  r_discountRate :: "rat option"
  r_discountAmount :: "rat option"
  r_totalAmount :: rat
  r_createdAt :: int

record receiptItem =
  ri_id :: int
  ri_receiptId :: int
  ri_productId :: int
  ri_productName :: string
  ri_productSku :: string
  ri_quantity :: int
  ri_unitPrice :: rat
  ri_totalPrice :: rat

text \<open>
  The database: the seven tables the storage methods touch and, for each, the
  \<^verbatim>\<open>sqlite_sequence\<close> entry that \<^verbatim>\<open>AUTOINCREMENT\<close> keeps (the largest rowid ever
  handed out).
\<close>

record store =
  categories :: "category list"
  products :: "product list"
  productImages :: "productImage list"
  productReviews :: "productReview list"
  wishlist :: "wishlistItem list"
  receipts :: "receipt list"
  receiptItems :: "receiptItem list"
  seq_categories :: int
  seq_products :: int
  seq_productImages :: int
  seq_productReviews :: int
  seq_wishlist :: int
  seq_receipts :: int
  seq_receiptItems :: int

text \<open>
  What a statement can raise: a UNIQUE constraint, a FOREIGN KEY constraint
  (\<^verbatim>\<open>sqlite.pragma('foreign_keys = ON')\<close> in \<^verbatim>\<open>server/db.ts\<close>), or a statement the
  engine or the query builder rejects.
\<close>

datatype db_error = UniqueConstraint | ForeignKeyConstraint | SqlError

text \<open>\<^verbatim>\<open>INTEGER PRIMARY KEY AUTOINCREMENT\<close>: one more than the largest rowid ever used.\<close>

definition next_id :: "int \<Rightarrow> int list \<Rightarrow> int" where
  "next_id sq ids = fold max ids (max sq 0) + 1"

section \<open>JavaScript and SQL primitives\<close>

text \<open>\<^verbatim>\<open>String(n)\<close> for a non-negative integer: its decimal digits.\<close>

definition digit_char :: "nat \<Rightarrow> char" where
  "digit_char d = char_of (48 + d)"

function String_nat :: "nat \<Rightarrow> string" where
  "String_nat n =
     (if n < 10 then [digit_char n] else String_nat (n div 10) @ [digit_char (n mod 10)])"
  by pat_completeness auto

termination
  by (relation "measure id") auto

declare String_nat.simps [simp del]

definition String_int :: "int \<Rightarrow> string" where
  "String_int i = (if i < 0 then CHR ''-'' # String_nat (nat (- i)) else String_nat (nat i))"

text \<open>\<^verbatim>\<open>s.padStart(n, c)\<close> with a one-character filler.\<close>

definition padStart :: "nat \<Rightarrow> char \<Rightarrow> string \<Rightarrow> string" where
  "padStart n c s = replicate (n - length s) c @ s"

text \<open>
  SQLite's \<^verbatim>\<open>LIKE\<close> (no ESCAPE clause): \<^verbatim>\<open>%\<close> matches any run of characters,
  \<^verbatim>\<open>_\<close> exactly one, any other character itself, ASCII letters without regard to case.
  Text is taken as a sequence of one-byte characters, and a pattern as short enough for
  the engine to accept it.
\<close>

definition ascii_upper :: "char \<Rightarrow> char" where
  "ascii_upper c =
     (if 97 \<le> (of_char c :: nat) \<and> (of_char c :: nat) \<le> 122
      then char_of ((of_char c :: nat) - 32) else c)"

fun sql_like :: "string \<Rightarrow> string \<Rightarrow> bool" where
  "sql_like [] [] = True"
| "sql_like [] (c # cs) = False"
| "sql_like (p # ps) [] = (p = CHR ''%'' \<and> sql_like ps [])"
| "sql_like (p # ps) (c # cs) =
     (if p = CHR ''%'' then sql_like ps (c # cs) \<or> sql_like (p # ps) cs
      else if p = CHR ''_'' then sql_like ps cs
      else ascii_upper p = ascii_upper c \<and> sql_like ps cs)"

text \<open>
  \<^verbatim>\<open>like(column, `%${search}%`)\<close>; on a NULL column the comparison is NULL, which
  selects nothing.
\<close>

definition like_contains :: "string \<Rightarrow> string \<Rightarrow> bool" where
  "like_contains search txt = sql_like (CHR ''%'' # search @ [CHR ''%'']) txt"

definition like_contains_opt :: "string \<Rightarrow> string option \<Rightarrow> bool" where
  "like_contains_opt search col = (case col of None \<Rightarrow> False | Some txt \<Rightarrow> like_contains search txt)"

text \<open>\<^verbatim>\<open>select count(*) from t where cond\<close>.\<close>

definition sql_count :: "('a \<Rightarrow> bool) \<Rightarrow> 'a list \<Rightarrow> nat" where
  "sql_count cond rows = length (filter cond rows)"


section \<open>SKU generation\<close>

text \<open>
  \<^verbatim>\<open>generateSku(category)\<close>. The year is what \<^verbatim>\<open>new Date().getFullYear()\<close> gives at the
  call; \<^verbatim>\<open>(result?.count || 0)\<close> is the count itself. The method issues one SELECT and
  returns; the returned store is the one it was given.
\<close>

definition generateSku :: "store \<Rightarrow> int \<Rightarrow> string \<Rightarrow> store \<times> string" where
  "generateSku s year category =
     (let count = sql_count (\<lambda>p. p_category p = category) (products s);
          nextNumber = (if count = 0 then 0 else count) + 1
      in (s, category @ ''-'' @ padStart 3 (CHR ''0'') (String_nat nextNumber) @ ''-''
               @ String_int year))"

section \<open>Products\<close>

text \<open>
  \<^verbatim>\<open>InsertProduct\<close>: what \<^verbatim>\<open>insertProductSchema\<close> yields. An optional field that is
  absent is \<open>None\<close>; the insert then stores the column's default, or NULL.
\<close>

record insertProduct =
  ip_name :: string
  ip_sku :: string
  ip_category :: string
  ip_price :: rat
  ip_stockQuantity :: int
  ip_description :: "string option"
  ip_details :: "string option"
  ip_brand :: "string option"
  ip_model :: "string option"
  ip_weight :: "rat option"
  ip_length :: "rat option"
  ip_width :: "rat option"
  ip_height :: "rat option"
  ip_imageUrl :: "string option"
  ip_barcodeType :: "string option"
  ip_barcodeData :: "string option"
  ip_isActive :: "bool option"
  ip_isFeatured :: "bool option"
  ip_tags :: "string option"

text \<open>
  \<^verbatim>\<open>Partial<InsertProduct>\<close>: every field may be absent (\<open>None\<close>: the column is left
  as it is). \<^verbatim>\<open>barcodeData\<close> is the one field that may be given as null.
\<close>

record productPatch =
  up_name :: "string option"
  up_sku :: "string option"
  up_category :: "string option"
  up_price :: "rat option"
  up_stockQuantity :: "int option"
  up_description :: "string option"
  up_details :: "string option"
  up_brand :: "string option"
  up_model :: "string option"
  up_weight :: "rat option"
  up_length :: "rat option"
  up_width :: "rat option"
  up_height :: "rat option"
  up_imageUrl :: "string option"
  up_barcodeType :: "string option"
  up_barcodeData :: "string option option"
  up_isActive :: "bool option"
  up_isFeatured :: "bool option"
  up_tags :: "string option"

definition or_default :: "'a \<Rightarrow> 'a option \<Rightarrow> 'a" where
  "or_default d v = (case v of None \<Rightarrow> d | Some x \<Rightarrow> x)"

definition or_keep :: "'a option \<Rightarrow> 'a option \<Rightarrow> 'a option" where
  "or_keep old v = (case v of None \<Rightarrow> old | Some x \<Rightarrow> Some x)"

definition new_product :: "int \<Rightarrow> int \<Rightarrow> insertProduct \<Rightarrow> product" where
  "new_product i now ip =
     \<lparr> p_id = i, p_name = ip_name ip, p_sku = ip_sku ip, p_category = ip_category ip,
       p_price = ip_price ip, p_stockQuantity = ip_stockQuantity ip,
       p_description = ip_description ip, p_details = ip_details ip, p_brand = ip_brand ip,
       p_model = ip_model ip, p_weight = ip_weight ip, p_length = ip_length ip,
       p_width = ip_width ip, p_height = ip_height ip, p_imageUrl = ip_imageUrl ip,
       p_barcodeType = or_default ''code128'' (ip_barcodeType ip),
       p_barcodeData = ip_barcodeData ip,
       p_isActive = or_default True (ip_isActive ip),
       p_isFeatured = or_default False (ip_isFeatured ip),
       p_tags = ip_tags ip, p_createdAt = now, p_updatedAt = now \<rparr>"

text \<open>\<^verbatim>\<open>createProduct\<close>: one INSERT; \<^verbatim>\<open>sku\<close> is UNIQUE.\<close>

definition createProduct :: "store \<Rightarrow> int \<Rightarrow> insertProduct \<Rightarrow> store \<times> (db_error + product)" where
  "createProduct s now ip =
     (if list_ex (\<lambda>p. p_sku p = ip_sku ip) (products s) then (s, Inl UniqueConstraint)
      else
        let i = next_id (seq_products s) (map p_id (products s));
            newProduct = new_product i now ip
        in (s\<lparr>products := products s @ [newProduct], seq_products := i\<rparr>, Inr newProduct))"

definition patch_is_empty :: "productPatch \<Rightarrow> bool" where
  "patch_is_empty u \<longleftrightarrow>
     up_name u = None \<and> up_sku u = None \<and> up_category u = None \<and> up_price u = None \<and>
     up_stockQuantity u = None \<and> up_description u = None \<and> up_details u = None \<and>
     up_brand u = None \<and> up_model u = None \<and> up_weight u = None \<and> up_length u = None \<and>
     up_width u = None \<and> up_height u = None \<and> up_imageUrl u = None \<and>
     up_barcodeType u = None \<and> up_barcodeData u = None \<and> up_isActive u = None \<and>
     up_isFeatured u = None \<and> up_tags u = None"

definition apply_patch :: "productPatch \<Rightarrow> product \<Rightarrow> product" where
  "apply_patch u p =
     p\<lparr> p_name := or_default (p_name p) (up_name u),
        p_sku := or_default (p_sku p) (up_sku u),
        p_category := or_default (p_category p) (up_category u),
        p_price := or_default (p_price p) (up_price u),
        p_stockQuantity := or_default (p_stockQuantity p) (up_stockQuantity u),
        p_description := or_keep (p_description p) (up_description u),
        p_details := or_keep (p_details p) (up_details u),
        p_brand := or_keep (p_brand p) (up_brand u),
        p_model := or_keep (p_model p) (up_model u),
        p_weight := or_keep (p_weight p) (up_weight u),
        p_length := or_keep (p_length p) (up_length u),
        p_width := or_keep (p_width p) (up_width u),
        p_height := or_keep (p_height p) (up_height u),
        p_imageUrl := or_keep (p_imageUrl p) (up_imageUrl u),
        p_barcodeType := or_default (p_barcodeType p) (up_barcodeType u),
        p_barcodeData := or_default (p_barcodeData p) (up_barcodeData u),
        p_isActive := or_default (p_isActive p) (up_isActive u),
        p_isFeatured := or_default (p_isFeatured p) (up_isFeatured u),
        p_tags := or_keep (p_tags p) (up_tags u) \<rparr>"

text \<open>
  \<^verbatim>\<open>updateProduct(id, product)\<close>: \<^verbatim>\<open>update products set ... where id = ? returning *\<close>.
  The query builder refuses an update that sets nothing; a new \<^verbatim>\<open>sku\<close> must not be
  that of another row; with no row of that id nothing changes and the result is
  \<^verbatim>\<open>undefined\<close>.
\<close>

definition updateProduct :: "store \<Rightarrow> int \<Rightarrow> productPatch \<Rightarrow> store \<times> (db_error + product option)" where
  "updateProduct s i u =
     (if patch_is_empty u then (s, Inl SqlError)
      else case find (\<lambda>p. p_id p = i) (products s) of
        None \<Rightarrow> (s, Inr None)
      | Some p \<Rightarrow>
          (case up_sku u of
             Some k \<Rightarrow>
               if list_ex (\<lambda>q. p_id q \<noteq> i \<and> p_sku q = k) (products s)
               then (s, Inl UniqueConstraint)
               else (s\<lparr>products := map (\<lambda>q. if p_id q = i then apply_patch u q else q) (products s)\<rparr>,
                     Inr (Some (apply_patch u p)))
           | None \<Rightarrow>
               (s\<lparr>products := map (\<lambda>q. if p_id q = i then apply_patch u q else q) (products s)\<rparr>,
                Inr (Some (apply_patch u p)))))"

text \<open>
  \<^verbatim>\<open>deleteProduct(id)\<close>: \<^verbatim>\<open>delete from products where id = ?\<close>, result
  \<^verbatim>\<open>changes > 0\<close>. With foreign keys on, the delete takes with it the rows of
  \<^verbatim>\<open>product_images\<close>, \<^verbatim>\<open>product_reviews\<close> and \<^verbatim>\<open>wishlist\<close> that reference the
  product (ON DELETE CASCADE). \<^verbatim>\<open>receipt_items.product_id\<close> references
  \<^verbatim>\<open>products(id)\<close> with no action given: while a receipt item references the product
  the statement fails and changes nothing.
\<close>

definition deleteProduct :: "store \<Rightarrow> int \<Rightarrow> store \<times> (db_error + bool)" where
  "deleteProduct s i =
     (if \<not> list_ex (\<lambda>p. p_id p = i) (products s) then (s, Inr False)
      else if list_ex (\<lambda>it. ri_productId it = i) (receiptItems s)
      then (s, Inl ForeignKeyConstraint)
      else (s\<lparr> products := filter (\<lambda>p. p_id p \<noteq> i) (products s),
               productImages := filter (\<lambda>x. pi_productId x \<noteq> i) (productImages s),
               productReviews := filter (\<lambda>x. pr_productId x \<noteq> i) (productReviews s),
               wishlist := filter (\<lambda>x. w_productId x \<noteq> i) (wishlist s) \<rparr>,
            Inr True))"

section \<open>Product images and reviews\<close>

record insertProductImage =
  ipi_productId :: int
  ipi_imageUrl :: string
  ipi_alt :: "string option"
  ipi_isPrimary :: "bool option"
  ipi_sortOrder :: "int option"

record insertProductReview =
  ipr_productId :: int
  ipr_customerName :: string
  ipr_customerEmail :: "string option"
  ipr_rating :: int
  ipr_reviewText :: "string option"
  ipr_isVerified :: "bool option"

text \<open>
  \<^verbatim>\<open>addProductImage(image)\<close> and \<^verbatim>\<open>addProductReview(review)\<close>: one INSERT each;
  \<^verbatim>\<open>product_id\<close> references \<^verbatim>\<open>products(id)\<close>.
\<close>

definition addProductImage :: "store \<Rightarrow> insertProductImage \<Rightarrow> store \<times> (db_error + productImage)" where
  "addProductImage s img =
     (if \<not> list_ex (\<lambda>p. p_id p = ipi_productId img) (products s)
      then (s, Inl ForeignKeyConstraint)
      else
        let i = next_id (seq_productImages s) (map pi_id (productImages s));
            row = \<lparr> pi_id = i, pi_productId = ipi_productId img,
                    pi_imageUrl = ipi_imageUrl img, pi_alt = ipi_alt img,
                    pi_isPrimary = or_default False (ipi_isPrimary img),
                    pi_sortOrder = or_default 0 (ipi_sortOrder img) \<rparr>
        in (s\<lparr>productImages := productImages s @ [row], seq_productImages := i\<rparr>, Inr row))"

definition addProductReview :: "store \<Rightarrow> int \<Rightarrow> insertProductReview \<Rightarrow> store \<times> (db_error + productReview)" where
  "addProductReview s now review =
     (if \<not> list_ex (\<lambda>p. p_id p = ipr_productId review) (products s)
      then (s, Inl ForeignKeyConstraint)
      else
        let i = next_id (seq_productReviews s) (map pr_id (productReviews s));
            row = \<lparr> pr_id = i, pr_productId = ipr_productId review,
                    pr_customerName = ipr_customerName review,
                    pr_customerEmail = ipr_customerEmail review,
                    pr_rating = ipr_rating review, pr_reviewText = ipr_reviewText review,
                    pr_isVerified = or_default False (ipr_isVerified review),
                    pr_createdAt = now \<rparr>
        in (s\<lparr>productReviews := productReviews s @ [row], seq_productReviews := i\<rparr>, Inr row))"

section \<open>Listings\<close>

text \<open>
  \<^verbatim>\<open>ORDER BY key\<close>. SQL leaves the order of rows with equal keys open; the model keeps
  them in table order, in both directions.
\<close>

definition order_by :: "('a \<Rightarrow> 'k::linorder) \<Rightarrow> bool \<Rightarrow> 'a list \<Rightarrow> 'a list" where
  "order_by key descending rows =
     (if descending then rev (sort_key key (rev rows)) else sort_key key rows)"

text \<open>An argument that is \<^verbatim>\<open>undefined\<close> or the empty string is falsy: no condition.\<close>

definition given :: "string option \<Rightarrow> string option" where
  "given v = (case v of None \<Rightarrow> None | Some x \<Rightarrow> if x = [] then None else Some x)"

text \<open>The admin listing, \<^verbatim>\<open>getProducts(search?, category?)\<close>.\<close>

definition products_cond :: "string option \<Rightarrow> string option \<Rightarrow> product \<Rightarrow> bool" where
  "products_cond search category p \<longleftrightarrow>
     (case given search of None \<Rightarrow> True
      | Some q \<Rightarrow> like_contains q (p_name p) \<or> like_contains q (p_sku p)
                 \<or> like_contains_opt q (p_description p)) \<and>
     (case given category of None \<Rightarrow> True | Some c \<Rightarrow> p_category p = c)"

definition getProducts :: "store \<Rightarrow> string option \<Rightarrow> string option \<Rightarrow> product list" where
  "getProducts s search category =
     take 100 (order_by p_createdAt True (filter (products_cond search category) (products s)))"

text \<open>The public catalog, \<^verbatim>\<open>getCatalogProducts(filters)\<close>.\<close>

datatype sort_by = SortName | SortPrice | SortCreated | SortRating

datatype sort_order = Asc | Desc

record catalog_filters =
  f_search :: "string option"
  f_category :: "string option"
  f_minPrice :: "rat option"
  f_maxPrice :: "rat option"
  f_inStock :: "bool option"
  f_featured :: "bool option"
  f_sortBy :: "sort_by option"
  f_sortOrder :: "sort_order option"
  f_limit :: "int option"
  f_offset :: "int option"

definition catalog_cond :: "catalog_filters \<Rightarrow> product \<Rightarrow> bool" where
  "catalog_cond f p \<longleftrightarrow>
     p_isActive p = True \<and>
     (case given (f_search f) of None \<Rightarrow> True
      | Some q \<Rightarrow> like_contains q (p_name p) \<or> like_contains q (p_sku p)
                 \<or> like_contains_opt q (p_description p) \<or> like_contains_opt q (p_brand p)
                 \<or> like_contains_opt q (p_tags p)) \<and>
     (case given (f_category f) of None \<Rightarrow> True | Some c \<Rightarrow> p_category p = c) \<and>
     (case f_minPrice f of None \<Rightarrow> True | Some a \<Rightarrow> p_price p \<ge> a) \<and>
     (case f_maxPrice f of None \<Rightarrow> True | Some b \<Rightarrow> p_price p \<le> b) \<and>
     (if f_inStock f = Some True then p_stockQuantity p > 0 else True) \<and>
     (if f_featured f = Some True then p_isFeatured p = True else True)"

definition catalog_sorted :: "catalog_filters \<Rightarrow> product list \<Rightarrow> product list" where
  "catalog_sorted f rows =
     (let descending = (f_sortOrder f = Some Desc) in
      case f_sortBy f of
        Some SortPrice \<Rightarrow> order_by p_price descending rows
      | Some SortCreated \<Rightarrow> order_by p_createdAt descending rows
      | _ \<Rightarrow> order_by p_name descending rows)"

text \<open>
  \<^verbatim>\<open>.limit(n)\<close> and \<^verbatim>\<open>.offset(m)\<close> are called for a truthy (non-zero) argument only.
  SQLite reads a negative LIMIT as no limit and a negative OFFSET as 0; its grammar has
  OFFSET only after LIMIT, so a query with an offset and no limit is rejected.
\<close>

definition truthy :: "int option \<Rightarrow> int option" where
  "truthy v = (case v of None \<Rightarrow> None | Some n \<Rightarrow> if n = 0 then None else Some n)"

definition limit_offset :: "int option \<Rightarrow> int option \<Rightarrow> 'a list \<Rightarrow> db_error + 'a list" where
  "limit_offset lmt ofs rows =
     (case lmt of
        None \<Rightarrow> (case ofs of None \<Rightarrow> Inr rows | Some m \<Rightarrow> Inl SqlError)
      | Some n \<Rightarrow>
          (let rest = (case ofs of None \<Rightarrow> rows | Some m \<Rightarrow> drop (nat m) rows)
           in Inr (if n < 0 then rest else take (nat n) rest)))"

definition getCatalogProducts :: "store \<Rightarrow> catalog_filters \<Rightarrow> db_error + product list" where
  "getCatalogProducts s f =
     limit_offset (truthy (f_limit f)) (truthy (f_offset f))
       (catalog_sorted f (filter (catalog_cond f) (products s)))"

section \<open>Wishlist\<close>

definition wishlist_match :: "string \<Rightarrow> int \<Rightarrow> wishlistItem \<Rightarrow> bool" where
  "wishlist_match sessionId productId w \<longleftrightarrow> w_sessionId w = sessionId \<and> w_productId w = productId"

text \<open>
  \<^verbatim>\<open>addToWishlist(sessionId, productId)\<close>: a SELECT for the pair (\<^verbatim>\<open>.get()\<close>: the first
  row), and an INSERT when there is none. \<^verbatim>\<open>wishlist.product_id\<close> references
  \<^verbatim>\<open>products(id)\<close>: the insert fails when no such product exists.
\<close>

definition addToWishlist :: "store \<Rightarrow> int \<Rightarrow> string \<Rightarrow> int \<Rightarrow> store \<times> (db_error + wishlistItem)" where
  "addToWishlist s now sessionId productId =
     (case find (wishlist_match sessionId productId) (wishlist s) of
        Some existing \<Rightarrow> (s, Inr existing)
      | None \<Rightarrow>
          if \<not> list_ex (\<lambda>p. p_id p = productId) (products s) then (s, Inl ForeignKeyConstraint)
          else
            let i = next_id (seq_wishlist s) (map w_id (wishlist s));
                row = \<lparr> w_id = i, w_sessionId = sessionId, w_productId = productId,
                        w_createdAt = now \<rparr>
            in (s\<lparr>wishlist := wishlist s @ [row], seq_wishlist := i\<rparr>, Inr row))"

text \<open>\<^verbatim>\<open>removeFromWishlist(sessionId, productId)\<close>: one DELETE, result \<^verbatim>\<open>changes > 0\<close>.\<close>

definition removeFromWishlist :: "store \<Rightarrow> string \<Rightarrow> int \<Rightarrow> store \<times> bool" where
  "removeFromWishlist s sessionId productId =
     (let changes = sql_count (wishlist_match sessionId productId) (wishlist s)
      in (s\<lparr>wishlist := filter (\<lambda>w. \<not> wishlist_match sessionId productId w) (wishlist s)\<rparr>,
          changes > 0))"

section \<open>Receipts\<close>

text \<open>
  A nullable column with a default: the field may be absent (the default is stored),
  null, or a value.
\<close>

datatype 'a defaulted = Absent | Null | Given 'a

definition stored :: "'a \<Rightarrow> 'a defaulted \<Rightarrow> 'a option" where
  "stored d v = (case v of Absent \<Rightarrow> Some d | Null \<Rightarrow> None | Given x \<Rightarrow> Some x)"

record insertReceipt =
  ir_receiptNumber :: string
  ir_customerName :: "string option"
  ir_businessName :: string
  ir_businessAddress :: "string option"
  ir_businessPhone :: "string option"
  ir_subtotal :: rat
  ir_taxRate :: rat
  ir_taxAmount :: rat
  ir_discountRate :: "rat defaulted"
  ir_discountAmount :: "rat defaulted"
  ir_totalAmount :: rat

record insertReceiptItem =
  iri_receiptId :: int
  iri_productId :: int
  iri_productName :: string
  iri_productSku :: string
  iri_quantity :: int
  iri_unitPrice :: rat
  iri_totalPrice :: rat

definition new_receipt :: "int \<Rightarrow> int \<Rightarrow> insertReceipt \<Rightarrow> receipt" where
  "new_receipt i now r =
     \<lparr> r_id = i, r_receiptNumber = ir_receiptNumber r, r_customerName = ir_customerName r,
       r_businessName = ir_businessName r, r_businessAddress = ir_businessAddress r,
       r_businessPhone = ir_businessPhone r, r_subtotal = ir_subtotal r,
       r_taxRate = ir_taxRate r, r_taxAmount = ir_taxAmount r,
       r_discountRate = stored 0 (ir_discountRate r),
       r_discountAmount = stored 0 (ir_discountAmount r),
       r_totalAmount = ir_totalAmount r, r_createdAt = now \<rparr>"

text \<open>\<^verbatim>\<open>db.insert(receipts).values(receipt).returning().get()\<close>; \<^verbatim>\<open>receipt_number\<close> is UNIQUE.\<close>

definition insert_receipt :: "store \<Rightarrow> int \<Rightarrow> insertReceipt \<Rightarrow> store \<times> (db_error + receipt)" where
  "insert_receipt s now r =
     (if list_ex (\<lambda>x. r_receiptNumber x = ir_receiptNumber r) (receipts s)
      then (s, Inl UniqueConstraint)
      else
        let i = next_id (seq_receipts s) (map r_id (receipts s));
            newReceipt = new_receipt i now r
        in (s\<lparr>receipts := receipts s @ [newReceipt], seq_receipts := i\<rparr>, Inr newReceipt))"

definition new_receiptItem :: "int \<Rightarrow> insertReceiptItem \<Rightarrow> receiptItem" where
  "new_receiptItem i item =
     \<lparr> ri_id = i, ri_receiptId = iri_receiptId item, ri_productId = iri_productId item,
       ri_productName = iri_productName item, ri_productSku = iri_productSku item,
       ri_quantity = iri_quantity item, ri_unitPrice = iri_unitPrice item,
       ri_totalPrice = iri_totalPrice item \<rparr>"

text \<open>
  \<^verbatim>\<open>db.insert(receiptItems).values(item)\<close>: \<^verbatim>\<open>receipt_id\<close> and \<^verbatim>\<open>product_id\<close> are
  foreign keys; the insert fails unless both rows exist.
\<close>

definition insert_receiptItem :: "store \<Rightarrow> insertReceiptItem \<Rightarrow> store \<times> (db_error + unit)" where
  "insert_receiptItem s item =
     (if list_ex (\<lambda>r. r_id r = iri_receiptId item) (receipts s)
         \<and> list_ex (\<lambda>p. p_id p = iri_productId item) (products s)
      then
        let i = next_id (seq_receiptItems s) (map ri_id (receiptItems s))
        in (s\<lparr>receiptItems := receiptItems s @ [new_receiptItem i item],
               seq_receiptItems := i\<rparr>, Inr ())
      else (s, Inl ForeignKeyConstraint))"

text \<open>
  The loop of \<^verbatim>\<open>createReceipt\<close>: \<^verbatim>\<open>for (const item of items) await db.insert(...)\<close>, each
  item with \<^verbatim>\<open>receiptId: newReceipt.id\<close>. An insert that throws ends the loop; what was
  written before it stays.
\<close>

fun insert_items :: "store \<Rightarrow> int \<Rightarrow> insertReceiptItem list \<Rightarrow> store \<times> (db_error + unit)" where
  "insert_items s rid [] = (s, Inr ())"
| "insert_items s rid (item # items) =
     (case insert_receiptItem s (item\<lparr>iri_receiptId := rid\<rparr>) of
        (s', Inl e) \<Rightarrow> (s', Inl e)
      | (s', Inr _) \<Rightarrow> insert_items s' rid items)"

text \<open>\<^verbatim>\<open>createReceipt(receipt, items)\<close>: the header, then the items, with no transaction.\<close>

definition createReceipt ::
  "store \<Rightarrow> int \<Rightarrow> insertReceipt \<Rightarrow> insertReceiptItem list \<Rightarrow> store \<times> (db_error + receipt)" where
  "createReceipt s now receipt items =
     (case insert_receipt s now receipt of
        (s', Inl e) \<Rightarrow> (s', Inl e)
      | (s', Inr newReceipt) \<Rightarrow>
          (case insert_items s' (r_id newReceipt) items of
             (s'', Inl e) \<Rightarrow> (s'', Inl e)
           | (s'', Inr _) \<Rightarrow> (s'', Inr newReceipt)))"

text \<open>
  The client's \<^verbatim>\<open>calculateTotals\<close> (\<^verbatim>\<open>receipt-generator.tsx\<close>) over the selected
  products, each a product with a quantity and a line total. A rate the form does
  not give (\<^verbatim>\<open>form.watch(...) || 0\<close>) is 0.
\<close>

record selectedProduct = product +
  sp_quantity :: int
  sp_total :: rat




definition updateQuantity :: "selectedProduct list \<Rightarrow> int \<Rightarrow> int \<Rightarrow> selectedProduct list" where
  "updateQuantity prev productId quantity =
     map (\<lambda>p. if p_id p = productId
              then p\<lparr>sp_quantity := quantity, sp_total := p_price p * of_int quantity\<rparr>
              else p) prev"

section \<open>Analytics\<close>



section \<open>Database initialisation\<close>

text \<open>
  \<^verbatim>\<open>initializeDatabase\<close>: the tables are created if absent, and six categories are
  inserted with \<^verbatim>\<open>INSERT OR IGNORE\<close>: a row whose name or code is already there is
  skipped.
\<close>

definition insert_or_ignore_category :: "int \<Rightarrow> string \<times> string \<times> string \<Rightarrow> store \<Rightarrow> store" where
  "insert_or_ignore_category now row s =
     (case row of (name, code, description) \<Rightarrow>
        if list_ex (\<lambda>c. c_name c = name \<or> c_code c = code) (categories s) then s
        else
          let i = next_id (seq_categories s) (map c_id (categories s))
          in s\<lparr>categories := categories s @
                  [\<lparr> c_id = i, c_name = name, c_code = code, c_description = Some description,
                     c_image = None, c_createdAt = now \<rparr>],
               seq_categories := i\<rparr>)"

definition default_categories :: "(string \<times> string \<times> string) list" where
  "default_categories =
     [(''Electronics'', ''ELC'', ''Electronic devices and components''),
      (''Clothing'', ''CLT'', ''Apparel and fashion items''),
      (''Food & Beverage'', ''FNB'', ''Food and drink products''),
      (''Home & Garden'', ''HOM'', ''Home improvement and garden supplies''),
      (''Books'', ''BKS'', ''Books and educational materials''),
      (''Toys'', ''TOY'', ''Toys and games'')]"

definition initializeDatabase :: "store \<Rightarrow> int \<Rightarrow> store" where
  "initializeDatabase s now = fold (insert_or_ignore_category now) default_categories s"

definition empty_store :: store where
  "empty_store =
     \<lparr> categories = [], products = [], productImages = [], productReviews = [],
       wishlist = [], receipts = [], receiptItems = [],
       seq_categories = 0, seq_products = 0, seq_productImages = 0, seq_productReviews = 0,
       seq_wishlist = 0, seq_receipts = 0, seq_receiptItems = 0 \<rparr>"

section \<open>Notions used in the statements\<close>

text \<open>
  The format of a SKU is stated through the decimal value of its digit strings:
  \<open>decimal_value\<close> reads a string of ASCII digits as a number.
\<close>

definition is_digit :: "char \<Rightarrow> bool" where
  "is_digit c \<longleftrightarrow> 48 \<le> (of_char c :: nat) \<and> (of_char c :: nat) \<le> 57"

definition decimal_value :: "string \<Rightarrow> nat" where
  "decimal_value s = foldl (\<lambda>a c. 10 * a + ((of_char c :: nat) - 48)) 0 s"

text \<open>What a stored receipt item holds besides its id.\<close>

definition item_data :: "receiptItem \<Rightarrow> insertReceiptItem" where
  "item_data row =
     \<lparr> iri_receiptId = ri_receiptId row, iri_productId = ri_productId row,
       iri_productName = ri_productName row, iri_productSku = ri_productSku row,
       iri_quantity = ri_quantity row, iri_unitPrice = ri_unitPrice row,
       iri_totalPrice = ri_totalPrice row \<rparr>"

text \<open>The product that an item names is in the products table.\<close>

definition product_exists :: "store \<Rightarrow> insertReceiptItem \<Rightarrow> bool" where
  "product_exists s item = list_ex (\<lambda>p. p_id p = iri_productId item) (products s)"

text \<open>The row that the header insert of \<open>createReceipt\<close> writes.\<close>

definition receipt_row :: "store \<Rightarrow> int \<Rightarrow> insertReceipt \<Rightarrow> receipt" where
  "receipt_row s now receipt =
     new_receipt (next_id (seq_receipts s) (map r_id (receipts s))) now receipt"

text \<open>
  All or nothing, in the words of the specification: after the call either no receipt
  and no receipt item has been added, or one receipt and as many receipt items as the
  call was given.
\<close>

definition all_or_nothing :: "store \<Rightarrow> insertReceiptItem list \<Rightarrow> store \<Rightarrow> bool" where
  "all_or_nothing s items s' \<longleftrightarrow>
     receipts s' = receipts s \<and> receiptItems s' = receiptItems s
     \<or> length (receipts s') = length (receipts s) + 1
        \<and> length (receiptItems s') = length (receiptItems s) + length items"




text \<open>A receipt item whose product is not in the products table.\<close>

definition dangling :: "store \<Rightarrow> bool" where
  "dangling s \<longleftrightarrow> list_ex (\<lambda>it. \<not> list_ex (\<lambda>p. p_id p = ri_productId it) (products s)) (receiptItems s)"

section \<open>An example shop\<close>

text \<open>
  The seeded database with three products, two of category ELC and an inactive one of
  category BKS, built with the operations above.
\<close>

definition example_insert :: "string \<Rightarrow> string \<Rightarrow> string \<Rightarrow> rat \<Rightarrow> int \<Rightarrow> bool \<Rightarrow> insertProduct" where
  "example_insert name sku cat price stock active =
     \<lparr> ip_name = name, ip_sku = sku, ip_category = cat, ip_price = price,
       ip_stockQuantity = stock, ip_description = None, ip_details = None, ip_brand = None,
       ip_model = None, ip_weight = None, ip_length = None, ip_width = None,
       ip_height = None, ip_imageUrl = None, ip_barcodeType = None, ip_barcodeData = None,
       ip_isActive = Some active, ip_isFeatured = None, ip_tags = None \<rparr>"

definition shop1 :: store where
  "shop1 = fst (createProduct (initializeDatabase empty_store 1700000000000) 1700000100
            (example_insert ''Laptop'' ''ELC-001-2026'' ''ELC'' 1200 5 True))"

definition shop2 :: store where
  "shop2 = fst (createProduct shop1 1700000200
            (example_insert ''Phone'' ''ELC-002-2026'' ''ELC'' 15 0 True))"

definition shop :: store where
  "shop = fst (createProduct shop2 1700000300
            (example_insert ''Novel'' ''BKS-001-2026'' ''BKS'' 20 50 False))"

definition laptop :: product where
  "laptop = new_product 1 1700000100 (example_insert ''Laptop'' ''ELC-001-2026'' ''ELC'' 1200 5 True)"

definition phone :: product where
  "phone = new_product 2 1700000200 (example_insert ''Phone'' ''ELC-002-2026'' ''ELC'' 15 0 True)"

definition novel :: product where
  "novel = new_product 3 1700000300 (example_insert ''Novel'' ''BKS-001-2026'' ''BKS'' 20 50 False)"

text \<open>The update \<^verbatim>\<open>{ isActive: b }\<close>, and the shop after the laptop has been taken out of the catalog.\<close>

definition set_isActive :: "bool \<Rightarrow> productPatch" where
  "set_isActive b =
     \<lparr> up_name = None, up_sku = None, up_category = None, up_price = None,
       up_stockQuantity = None, up_description = None, up_details = None, up_brand = None,
       up_model = None, up_weight = None, up_length = None, up_width = None,
       up_height = None, up_imageUrl = None, up_barcodeType = None, up_barcodeData = None,
       up_isActive = Some b, up_isFeatured = None, up_tags = None \<rparr>"

definition shop_off :: store where
  "shop_off = fst (updateProduct shop 1 (set_isActive False))"

text \<open>A catalog query with no filter, and one with price bounds only.\<close>

definition no_filters :: catalog_filters where
  "no_filters =
     \<lparr> f_search = None, f_category = None, f_minPrice = None, f_maxPrice = None,
       f_inStock = None, f_featured = None, f_sortBy = None, f_sortOrder = None,
       f_limit = None, f_offset = None \<rparr>"

definition price_filters :: "rat \<Rightarrow> rat \<Rightarrow> catalog_filters" where
  "price_filters a b = no_filters\<lparr>f_minPrice := Some a, f_maxPrice := Some b\<rparr>"

text \<open>A wishlist entry of a visitor for the laptop.\<close>

definition wish_row :: wishlistItem where
  "wish_row = \<lparr> w_id = 1, w_sessionId = ''visitor'', w_productId = 1, w_createdAt = 1700000500 \<rparr>"

definition shop_wish :: store where
  "shop_wish = fst (addToWishlist shop 1700000500 ''visitor'' 1)"

text \<open>A sale of the laptop and the phone: 1215 before tax, 10 percent tax, no discount.\<close>

definition sale_header :: insertReceipt where
  "sale_header =
     \<lparr> ir_receiptNumber = ''RCP-0001'', ir_customerName = Some ''Ada'',
       ir_businessName = ''Shop'', ir_businessAddress = None, ir_businessPhone = None,
       ir_subtotal = 1215, ir_taxRate = 1 / 10, ir_taxAmount = 243 / 2,
       ir_discountRate = Given 0, ir_discountAmount = Given 0,
       ir_totalAmount = 2673 / 2 \<rparr>"

definition sale_laptop :: insertReceiptItem where
  "sale_laptop =
     \<lparr> iri_receiptId = 0, iri_productId = 1, iri_productName = ''Laptop'',
       iri_productSku = ''ELC-001-2026'', iri_quantity = 1, iri_unitPrice = 1200,
       iri_totalPrice = 1200 \<rparr>"

definition sale_phone :: insertReceiptItem where
  "sale_phone =
     \<lparr> iri_receiptId = 0, iri_productId = 2, iri_productName = ''Phone'',
       iri_productSku = ''ELC-002-2026'', iri_quantity = 1, iri_unitPrice = 15,
       iri_totalPrice = 15 \<rparr>"

definition shop_sold :: store where
  "shop_sold = fst (createReceipt shop 1700000700 sale_header [sale_laptop, sale_phone])"

text \<open>
  The shop after a sale of the laptop and the phone, with an image, a review and a
  wishlist entry for the laptop and for the novel.
\<close>

definition picture :: "int \<Rightarrow> insertProductImage" where
  "picture productId =
     \<lparr> ipi_productId = productId, ipi_imageUrl = ''/uploads/picture'', ipi_alt = None,
       ipi_isPrimary = None, ipi_sortOrder = None \<rparr>"

definition praise :: "int \<Rightarrow> insertProductReview" where
  "praise productId =
     \<lparr> ipr_productId = productId, ipr_customerName = ''Ada'', ipr_customerEmail = None,
       ipr_rating = 5, ipr_reviewText = None, ipr_isVerified = None \<rparr>"

definition shop_full :: store where
  "shop_full =
     fst (addToWishlist
       (fst (addToWishlist
         (fst (addProductReview
           (fst (addProductReview
             (fst (addProductImage (fst (addProductImage shop_sold (picture 1))) (picture 3)))
             1700000900 (praise 1)))
           1700000901 (praise 3)))
         1700000902 ''visitor'' 1))
       1700000903 ''visitor'' 3)"

section \<open>Decimal strings\<close>

lemma is_digit_digit_char: "d < 10 \<Longrightarrow> is_digit (digit_char d)"
  by (simp add: is_digit_def digit_char_def)

lemma digit_char_value: "d < 10 \<Longrightarrow> (of_char (digit_char d) :: nat) - 48 = d"
  by (simp add: digit_char_def)

lemma String_nat_digits: "list_all is_digit (String_nat n)"
proof (induction n rule: String_nat.induct)
  case (1 n)
  show ?case
  proof (cases "n < 10")
    case True
    then show ?thesis by (simp add: String_nat.simps [of n] is_digit_digit_char)
  next
    case False
    with 1 show ?thesis by (simp add: String_nat.simps [of n] is_digit_digit_char)
  qed
qed

lemma decimal_value_snoc: "decimal_value (s @ [c]) = 10 * decimal_value s + ((of_char c :: nat) - 48)"
  by (simp add: decimal_value_def)

lemma decimal_value_String_nat: "decimal_value (String_nat n) = n"
proof (induction n rule: String_nat.induct)
  case (1 n)
  show ?case
  proof (cases "n < 10")
    case True
    then show ?thesis by (simp add: String_nat.simps [of n] decimal_value_def digit_char_value)
  next
    case False
    with 1 show ?thesis
      by (simp add: String_nat.simps [of n] decimal_value_snoc digit_char_value)
  qed
qed

lemma decimal_value_zeros: "decimal_value (replicate k (CHR ''0'') @ s) = decimal_value s"
proof (induction k)
  case 0
  show ?case by simp
next
  case (Suc k)
  have "decimal_value (CHR ''0'' # xs) = decimal_value xs" for xs
    by (simp add: decimal_value_def)
  with Suc show ?case by simp
qed

lemma String_nat_nonempty: "String_nat n \<noteq> []"
  by (subst String_nat.simps) simp

lemma String_nat_length3: "n < 1000 \<Longrightarrow> length (String_nat n) \<le> 3"
  apply (subst String_nat.simps)
  apply (simp)
  apply (subst String_nat.simps)
  apply simp
  apply (subst String_nat.simps)
  apply (simp)
  done

lemma String_nat_length2: "length (String_nat n) \<le> 2 \<Longrightarrow> n < 100"
  apply (subst (asm) String_nat.simps)
  apply (simp split: if_splits)
  apply (subst (asm) String_nat.simps)
  apply (simp split: if_splits)
  using String_nat_nonempty apply simp
  done

section \<open>The SKU generator\<close>

text \<open>
  C1. For every category code \<open>C\<close>, \<open>generateSku\<close> returns \<open>C-NNN-YYYY\<close>: \<open>YYYY\<close> is the
  current year, \<open>NNN\<close> is the number of products whose category equals \<open>C\<close>, plus one,
  written in decimal and padded with zeros to width 3 (three digits below 1000, the
  number's own digits from there on). The categories table plays no part: the code
  need not be that of an existing category.
\<close>

theorem generateSku_format:
  "let n = length (filter (\<lambda>p. p_category p = C) (products s)) + 1;
       NNN = padStart 3 (CHR ''0'') (String_nat n)
   in snd (generateSku s year C) = C @ ''-'' @ NNN @ ''-'' @ String_int year
      \<and> list_all is_digit NNN \<and> decimal_value NNN = n
      \<and> length NNN = max 3 (length (String_nat n))
      \<and> (if n < 1000 then length NNN = 3 else NNN = String_nat n)
      \<and> (if 0 \<le> year then list_all is_digit (String_int year)
            \<and> int (decimal_value (String_int year)) = year else True)
      \<and> snd (generateSku (s\<lparr>categories := cs\<rparr>) year C) = snd (generateSku s year C)"
proof -
  define n where "n = length (filter (\<lambda>p. p_category p = C) (products s)) + 1"
  define NNN where "NNN = padStart 3 (CHR ''0'') (String_nat n)"
  have sku: "snd (generateSku s year C) = C @ ''-'' @ NNN @ ''-'' @ String_int year"
    by (simp add: generateSku_def sql_count_def Let_def NNN_def n_def)
  have zero: "is_digit (CHR ''0'')" by (simp add: is_digit_def)
  have digits: "list_all is_digit NNN"
    using String_nat_digits [of n] zero by (auto simp: NNN_def padStart_def list_all_iff)
  have val: "decimal_value NNN = n"
    by (simp add: NNN_def padStart_def decimal_value_zeros decimal_value_String_nat)
  have len: "length NNN = max 3 (length (String_nat n))"
    by (simp add: NNN_def padStart_def)
  have small: "n < 1000 \<Longrightarrow> length NNN = 3"
    using String_nat_length3 [of n] len by simp
  have large: "\<not> n < 1000 \<Longrightarrow> NNN = String_nat n"
  proof -
    assume big: "\<not> n < 1000"
    have "length (String_nat n) \<ge> 3"
    proof (rule ccontr)
      assume "\<not> 3 \<le> length (String_nat n)"
      then have short: "length (String_nat n) \<le> 2" by simp
      have "n < 100"
        using short by (rule String_nat_length2)
      with big show False by simp
    qed
    then show ?thesis by (simp add: NNN_def padStart_def)
  qed
  have yr: "0 \<le> year \<Longrightarrow> list_all is_digit (String_int year)
      \<and> int (decimal_value (String_int year)) = year"
    by (simp add: String_int_def String_nat_digits decimal_value_String_nat)
  have cats: "snd (generateSku (s\<lparr>categories := cs\<rparr>) year C) = snd (generateSku s year C)"
    by (simp add: generateSku_def)
  show ?thesis
    unfolding Let_def n_def [symmetric] NNN_def [symmetric]
    using sku digits val len small large yr cats by simp
qed

lemma shop_products:
  "products shop =
     [new_product 1 1700000100 (example_insert ''Laptop'' ''ELC-001-2026'' ''ELC'' 1200 5 True),
      new_product 2 1700000200 (example_insert ''Phone'' ''ELC-002-2026'' ''ELC'' 15 0 True),
      new_product 3 1700000300 (example_insert ''Novel'' ''BKS-001-2026'' ''BKS'' 20 50 False)]"
  by code_simp

theorem generateSku_format_witness:
  "snd (generateSku shop 2026 ''ELC'') = ''ELC-003-2026''
   \<and> snd (generateSku shop 2026 ''XYZ'') = ''XYZ-001-2026''"
proof -
  have elc: "length (filter (\<lambda>p. p_category p = ''ELC'') (products shop)) + 1 = 3"
    by (simp add: shop_products new_product_def example_insert_def)
  have xyz: "length (filter (\<lambda>p. p_category p = ''XYZ'') (products shop)) + 1 = 1"
    by (simp add: shop_products new_product_def example_insert_def)
  have pad3: "padStart 3 (CHR ''0'') (String_nat 3) = ''003''" by code_simp
  have pad1: "padStart 3 (CHR ''0'') (String_nat 1) = ''001''" by code_simp
  have year: "String_int 2026 = ''2026''" by code_simp
  show ?thesis
    using generateSku_format [of "''ELC''" shop 2026] generateSku_format [of "''XYZ''" shop 2026]
    unfolding Let_def elc xyz pad3 pad1 year by simp
qed














section \<open>The statistics\<close>





section \<open>Ordering and the listings\<close>

lemma mset_order_by: "mset (order_by key d rows) = mset rows"
  by (simp add: order_by_def)

lemma set_order_by: "set (order_by key d rows) = set rows"
  by (simp add: order_by_def)


lemma sorted_order_by_asc: "sorted (map key (order_by key False rows))"
  by (simp add: order_by_def)


lemma filter_order_by: "filter P (order_by key d rows) = order_by key d (filter P rows)"
  by (simp add: order_by_def filter_sort rev_filter [symmetric])

lemma order_by_map_commute:
  assumes "\<And>x. key (g x) = key x"
  shows "order_by key d (map g rows) = map g (order_by key d rows)"
proof -
  have ins: "insort_key key (g x) (map g ys) = map g (insort_key key x ys)" for x ys
    by (induction ys) (simp_all add: assms)
  have srt: "sort_key key (map g ys) = map g (sort_key key ys)" for ys
    by (induction ys) (simp_all add: ins)
  show ?thesis
    by (simp add: order_by_def srt rev_map)
qed



lemma products_cond_isActive:
  "products_cond search category (p\<lparr>p_isActive := b\<rparr>) = products_cond search category p"
  by (simp add: products_cond_def split: option.split)


lemma shop_listing:
  "getProducts shop None None =
     [new_product 3 1700000300 (example_insert ''Novel'' ''BKS-001-2026'' ''BKS'' 20 50 False),
      new_product 2 1700000200 (example_insert ''Phone'' ''ELC-002-2026'' ''ELC'' 15 0 True),
      new_product 1 1700000100 (example_insert ''Laptop'' ''ELC-001-2026'' ''ELC'' 1200 5 True)]"
  by (simp add: getProducts_def products_cond_def given_def order_by_def shop_products new_product_def)


section \<open>The catalog\<close>

lemma set_catalog_sorted: "set (catalog_sorted f rows) = set rows"
  by (simp add: catalog_sorted_def Let_def set_order_by split: option.split sort_by.split)

lemma mset_catalog_sorted: "mset (catalog_sorted f rows) = mset rows"
  by (simp add: catalog_sorted_def Let_def mset_order_by split: option.split sort_by.split)

lemma filter_catalog_sorted: "filter P (catalog_sorted f rows) = catalog_sorted f (filter P rows)"
  by (simp add: catalog_sorted_def Let_def filter_order_by split: option.split sort_by.split)

lemma limit_offset_subset: "limit_offset l ofs rows = Inr ps \<Longrightarrow> set ps \<subseteq> set rows"
  by (auto simp: limit_offset_def Let_def split: option.splits if_splits
      dest: in_set_takeD in_set_dropD)

lemma limit_offset_returns:
  "ofs = None \<or> l \<noteq> None \<Longrightarrow> \<exists>ps. limit_offset l ofs rows = Inr ps"
  by (auto simp: limit_offset_def Let_def split: option.splits)

lemma catalog_rows:
  "getCatalogProducts s f = Inr ps \<Longrightarrow> set ps \<subseteq> {p \<in> set (products s). catalog_cond f p}"
  using limit_offset_subset [of "truthy (f_limit f)" "truthy (f_offset f)"
      "catalog_sorted f (filter (catalog_cond f) (products s))" ps]
  by (simp add: getCatalogProducts_def set_catalog_sorted)

lemma getProducts_flags:
  "getProducts (s\<lparr>products := map (\<lambda>p. p\<lparr>p_isActive := f p\<rparr>) (products s)\<rparr>) search category
     = map (\<lambda>p. p\<lparr>p_isActive := f p\<rparr>) (getProducts s search category)"
proof -
  have flt: "filter (products_cond search category) (map (\<lambda>p. p\<lparr>p_isActive := f p\<rparr>) xs)
      = map (\<lambda>p. p\<lparr>p_isActive := f p\<rparr>) (filter (products_cond search category) xs)" for xs
    by (induction xs) (simp_all add: products_cond_isActive)
  show ?thesis
    by (simp add: getProducts_def flt order_by_map_commute take_map)
qed

lemma updateProduct_result:
  "updateProduct s i u = (s', Inr r) \<Longrightarrow>
     s' = s\<lparr>products := map (\<lambda>q. if p_id q = i then apply_patch u q else q) (products s)\<rparr>"
proof -
  assume upd: "updateProduct s i u = (s', Inr r)"
  show ?thesis
  proof (cases "find (\<lambda>p. p_id p = i) (products s)")
    case None
    then have "\<forall>q\<in>set (products s). p_id q \<noteq> i"
      by (simp add: find_None_iff)
    then have "map (\<lambda>q. if p_id q = i then apply_patch u q else q) (products s) = products s"
      by (induction "products s") (auto simp: map_idI)
    with upd None show ?thesis
      by (auto simp: updateProduct_def split: if_splits)
  next
    case (Some p)
    with upd show ?thesis
      by (auto simp: updateProduct_def split: if_splits option.splits)
  qed
qed

lemma apply_patch_id: "p_id (apply_patch u q) = p_id q"
  by (simp add: apply_patch_def)

lemma apply_patch_inactive: "up_isActive u = Some False \<Longrightarrow> \<not> p_isActive (apply_patch u q)"
  by (simp add: apply_patch_def or_default_def)

lemma apply_set_isActive: "apply_patch (set_isActive b) q = q\<lparr>p_isActive := b\<rparr>"
  by (simp add: apply_patch_def set_isActive_def or_default_def or_keep_def)

lemma updateProduct_set_isActive:
  "updateProduct s i (set_isActive b) =
     (s\<lparr>products := map (\<lambda>q. q\<lparr>p_isActive := if p_id q = i then b else p_isActive q\<rparr>) (products s)\<rparr>,
      Inr (map_option (\<lambda>q. q\<lparr>p_isActive := b\<rparr>) (find (\<lambda>p. p_id p = i) (products s))))"
proof -
  have ne: "\<not> patch_is_empty (set_isActive b)" "up_sku (set_isActive b) = None"
    by (simp_all add: patch_is_empty_def set_isActive_def)
  have m: "map (\<lambda>q. if p_id q = i then apply_patch (set_isActive b) q else q) xs
      = map (\<lambda>q. q\<lparr>p_isActive := if p_id q = i then b else p_isActive q\<rparr>) xs" for xs
    by (induction xs) (simp_all add: apply_set_isActive)
  show ?thesis
  proof (cases "find (\<lambda>p. p_id p = i) (products s)")
    case None
    then have "\<forall>q\<in>set (products s). p_id q \<noteq> i"
      by (simp add: find_None_iff)
    then have "map (\<lambda>q. q\<lparr>p_isActive := if p_id q = i then b else p_isActive q\<rparr>) (products s) = products s"
      by (simp add: map_idI)
    with None ne show ?thesis
      by (simp add: updateProduct_def)
  next
    case (Some p)
    with ne show ?thesis
      by (simp add: updateProduct_def m apply_set_isActive)
  qed
qed

text \<open>
  C4. Whatever the filters, every row the catalog query returns has \<open>isActive\<close> true.
  Once a product has been updated with \<open>isActive\<close> false, no catalog query returns a
  row of its id. The admin listing does not look at \<open>isActive\<close>: after the update
  \<^verbatim>\<open>{ isActive: false }\<close> it returns the rows it returned before, in the same order,
  the updated product among them with its new flag. (A catalog query with an offset
  and no limit is rejected and returns no rows at all.)
\<close>

theorem catalog_only_active:
  "(getCatalogProducts s f = Inr ps \<longrightarrow> (\<forall>p\<in>set ps. p_isActive p)) \<and>
   (truthy (f_offset f) = None \<or> truthy (f_limit f) \<noteq> None
      \<longrightarrow> (\<exists>rows. getCatalogProducts s f = Inr rows)) \<and>
   (up_isActive u = Some False \<and> updateProduct s i u = (s', Inr r)
      \<and> getCatalogProducts s' f' = Inr ps' \<longrightarrow> (\<forall>p\<in>set ps'. p_id p \<noteq> i)) \<and>
   getProducts (fst (updateProduct s i (set_isActive False))) search category
     = map (\<lambda>p. p\<lparr>p_isActive := if p_id p = i then False else p_isActive p\<rparr>)
         (getProducts s search category)"
proof (intro conjI impI)
  assume "getCatalogProducts s f = Inr ps"
  from catalog_rows [OF this] show "\<forall>p\<in>set ps. p_isActive p"
    by (auto simp: catalog_cond_def)
next
  assume "truthy (f_offset f) = None \<or> truthy (f_limit f) \<noteq> None"
  then show "\<exists>rows. getCatalogProducts s f = Inr rows"
    unfolding getCatalogProducts_def by (rule limit_offset_returns)
next
  assume a: "up_isActive u = Some False \<and> updateProduct s i u = (s', Inr r)
      \<and> getCatalogProducts s' f' = Inr ps'"
  then have off: "up_isActive u = Some False"
    and upd: "updateProduct s i u = (s', Inr r)"
    and cat: "getCatalogProducts s' f' = Inr ps'"
    by blast+
  have s': "products s' = map (\<lambda>q. if p_id q = i then apply_patch u q else q) (products s)"
    using updateProduct_result [OF upd] by simp
  have inactive: "\<not> p_isActive p" if "p \<in> set (products s')" "p_id p = i" for p
  proof -
    from that(1) have "p \<in> (\<lambda>q. if p_id q = i then apply_patch u q else q) ` set (products s)"
      unfolding s' by simp
    then obtain q where "p = (if p_id q = i then apply_patch u q else q)"
      by (rule imageE)
    with that(2) have "p = apply_patch u q"
      by (cases "p_id q = i") simp_all
    then show ?thesis
      using off by (simp add: apply_patch_inactive)
  qed
  have "set ps' \<subseteq> {p \<in> set (products s'). catalog_cond f' p}"
    using cat by (rule catalog_rows)
  then have "p \<in> set (products s') \<and> p_isActive p" if "p \<in> set ps'" for p
    using that by (auto simp: catalog_cond_def)
  then show "\<forall>p\<in>set ps'. p_id p \<noteq> i"
    using inactive by blast
next
  show "getProducts (fst (updateProduct s i (set_isActive False))) search category
     = map (\<lambda>p. p\<lparr>p_isActive := if p_id p = i then False else p_isActive p\<rparr>)
         (getProducts s search category)"
    using getProducts_flags [where s = s and f = "\<lambda>p. if p_id p = i then False else p_isActive p"]
    by (simp add: updateProduct_set_isActive)
qed

lemma shop_rows: "products shop = [laptop, phone, novel]"
  by (simp add: shop_products laptop_def phone_def novel_def)

theorem catalog_only_active_witness:
  "getCatalogProducts shop no_filters = Inr [laptop, phone] \<and>
   list_all p_isActive [laptop, phone] \<and>
   up_isActive (set_isActive False) = Some False \<and>
   updateProduct shop 1 (set_isActive False) = (shop_off, Inr (Some (laptop\<lparr>p_isActive := False\<rparr>))) \<and>
   getCatalogProducts shop_off no_filters = Inr [phone] \<and>
   list_all (\<lambda>p. p_id p \<noteq> 1) [phone] \<and>
   getProducts shop None None = [novel, phone, laptop] \<and>
   getProducts shop_off None None = [novel, phone, laptop\<lparr>p_isActive := False\<rparr>]"
proof -
  have q1: "getCatalogProducts shop no_filters = Inr [laptop, phone]"
    by code_simp
  have q2: "getCatalogProducts shop_off no_filters = Inr [phone]"
    by code_simp
  have off: "up_isActive (set_isActive False) = Some False"
    by (simp add: set_isActive_def)
  have upd: "updateProduct shop 1 (set_isActive False)
      = (shop_off, Inr (Some (laptop\<lparr>p_isActive := False\<rparr>)))"
    by (simp add: shop_off_def updateProduct_set_isActive shop_rows laptop_def new_product_def)
  have adm: "getProducts shop None None = [novel, phone, laptop]"
    by (simp add: shop_listing laptop_def phone_def novel_def)
  have ids: "p_id laptop = 1" "p_id phone = 2" "p_id novel = 3"
      "p_isActive phone" "\<not> p_isActive novel"
    by (simp_all add: laptop_def phone_def novel_def new_product_def example_insert_def or_default_def)
  note inst = catalog_only_active [where s = shop and f = no_filters and ps = "[laptop, phone]"
      and u = "set_isActive False" and i = 1 and s' = shop_off
      and r = "Some (laptop\<lparr>p_isActive := False\<rparr>)" and f' = no_filters and ps' = "[phone]"
      and search = None and category = None]
  have a: "list_all p_isActive [laptop, phone]"
    using inst q1 by (simp add: list_all_iff)
  have b: "list_all (\<lambda>p. p_id p \<noteq> 1) [phone]"
    using inst off upd q2 by (simp add: list_all_iff)
  have c: "getProducts shop_off None None = [novel, phone, laptop\<lparr>p_isActive := False\<rparr>]"
    using inst unfolding shop_off_def [symmetric] adm by (simp add: ids)
  show ?thesis
    using q1 a off upd q2 b adm c by blast
qed

lemma catalog_cond_price:
  assumes "f_minPrice f = Some a" "f_maxPrice f = Some b"
  shows "catalog_cond f p \<longleftrightarrow>
     catalog_cond (f\<lparr>f_minPrice := None, f_maxPrice := None\<rparr>) p \<and> a \<le> p_price p \<and> p_price p \<le> b"
  using assms by (auto simp: catalog_cond_def)

lemma catalog_cond_pagination:
  "catalog_cond (f\<lparr>f_limit := l, f_offset := ofs\<rparr>) = catalog_cond f"
  by (rule ext) (simp add: catalog_cond_def)

lemma catalog_sorted_other:
  "f_sortBy g = f_sortBy f \<Longrightarrow> f_sortOrder g = f_sortOrder f \<Longrightarrow> catalog_sorted g = catalog_sorted f"
  by (rule ext) (simp add: catalog_sorted_def)

text \<open>
  C7. With \<open>minPrice = a\<close> and \<open>maxPrice = b\<close> the catalog query returns exactly the
  rows of the same query without price bounds whose price \<open>p\<close> satisfies
  \<open>a \<le> p \<le> b\<close>, both bounds included: as many times and in the same order, and, when
  a limit or an offset is given, the page of them that the limit and the offset
  select. Without limit and offset these are exactly the active products that match
  the other filters and have \<open>a \<le> p \<le> b\<close>.
\<close>

theorem catalog_price_range:
  assumes "f_minPrice f = Some a" and "f_maxPrice f = Some b"
  shows "\<exists>rows.
     getCatalogProducts s (f\<lparr>f_minPrice := None, f_maxPrice := None,
                             f_limit := None, f_offset := None\<rparr>) = Inr rows \<and>
     getCatalogProducts s f
       = limit_offset (truthy (f_limit f)) (truthy (f_offset f))
           (filter (\<lambda>p. a \<le> p_price p \<and> p_price p \<le> b) rows) \<and>
     (truthy (f_limit f) = None \<and> truthy (f_offset f) = None \<longrightarrow>
        getCatalogProducts s f = Inr (filter (\<lambda>p. a \<le> p_price p \<and> p_price p \<le> b) rows) \<and>
        set (filter (\<lambda>p. a \<le> p_price p \<and> p_price p \<le> b) rows)
          = {p \<in> set (products s).
               catalog_cond (f\<lparr>f_minPrice := None, f_maxPrice := None\<rparr>) p
               \<and> a \<le> p_price p \<and> p_price p \<le> b} \<and>
        mset (filter (\<lambda>p. a \<le> p_price p \<and> p_price p \<le> b) rows)
          = mset (filter (\<lambda>p. catalog_cond (f\<lparr>f_minPrice := None, f_maxPrice := None\<rparr>) p
               \<and> a \<le> p_price p \<and> p_price p \<le> b) (products s)))"
proof -
  define f0 where "f0 = f\<lparr>f_minPrice := None, f_maxPrice := None\<rparr>"
  define f1 where "f1 = f\<lparr>f_minPrice := None, f_maxPrice := None, f_limit := None, f_offset := None\<rparr>"
  define inrange where "inrange = (\<lambda>p::product. a \<le> p_price p \<and> p_price p \<le> b)"
  define rows where "rows = catalog_sorted f (filter (catalog_cond f0) (products s))"
  have f1: "f1 = f0\<lparr>f_limit := None, f_offset := None\<rparr>"
    by (simp add: f0_def f1_def)
  have srt: "catalog_sorted f1 = catalog_sorted f"
    by (rule catalog_sorted_other) (simp_all add: f1_def)
  have cnd: "catalog_cond f1 = catalog_cond f0"
    unfolding f1 by (rule catalog_cond_pagination)
  have pag: "truthy (f_limit f1) = None" "truthy (f_offset f1) = None"
    by (simp_all add: f1_def truthy_def)
  have unpaged: "getCatalogProducts s f1 = Inr rows"
    unfolding getCatalogProducts_def srt cnd pag rows_def
    by (simp add: limit_offset_def)
  have cond: "catalog_cond f p \<longleftrightarrow> catalog_cond f0 p \<and> inrange p" for p
    unfolding f0_def inrange_def using assms by (rule catalog_cond_price)
  have flt: "filter (catalog_cond f) xs = filter inrange (filter (catalog_cond f0) xs)" for xs
    by (induction xs) (simp_all add: cond)
  have sorted: "catalog_sorted f (filter (catalog_cond f) (products s)) = filter inrange rows"
    by (simp add: flt rows_def filter_catalog_sorted)
  have paged: "getCatalogProducts s f
       = limit_offset (truthy (f_limit f)) (truthy (f_offset f)) (filter inrange rows)"
    by (simp add: getCatalogProducts_def sorted)
  have whole: "truthy (f_limit f) = None \<and> truthy (f_offset f) = None \<Longrightarrow>
       getCatalogProducts s f = Inr (filter inrange rows)"
    by (simp add: paged limit_offset_def)
  have st: "set (filter inrange rows)
      = {p \<in> set (products s). catalog_cond f0 p \<and> inrange p}"
    by (auto simp: rows_def set_catalog_sorted)
  have ms: "mset (filter inrange rows)
      = mset (filter (\<lambda>p. catalog_cond f0 p \<and> inrange p) (products s))"
    using mset_catalog_sorted [of f "filter (catalog_cond f) (products s)"]
    by (simp add: sorted [symmetric] cond)
  have "getCatalogProducts s f1 = Inr rows \<and>
     getCatalogProducts s f
       = limit_offset (truthy (f_limit f)) (truthy (f_offset f)) (filter inrange rows) \<and>
     (truthy (f_limit f) = None \<and> truthy (f_offset f) = None \<longrightarrow>
        getCatalogProducts s f = Inr (filter inrange rows) \<and>
        set (filter inrange rows) = {p \<in> set (products s). catalog_cond f0 p \<and> inrange p} \<and>
        mset (filter inrange rows)
          = mset (filter (\<lambda>p. catalog_cond f0 p \<and> inrange p) (products s)))"
    using unpaged paged whole st ms by blast
  then show ?thesis
    unfolding f0_def f1_def inrange_def by (rule exI [of _ rows])
qed

theorem catalog_price_range_witness:
  "f_minPrice (price_filters 15 1200) = Some 15 \<and>
   f_maxPrice (price_filters 15 1200) = Some 1200 \<and>
   p_price phone = 15 \<and> p_price laptop = 1200 \<and>
   getCatalogProducts shop no_filters = Inr [laptop, phone] \<and>
   getCatalogProducts shop (price_filters 15 1200) = Inr [laptop, phone]"
proof -
  have lo: "f_minPrice (price_filters 15 1200) = Some 15"
    and hi: "f_maxPrice (price_filters 15 1200) = Some 1200"
    by (simp_all add: price_filters_def)
  have prices: "p_price phone = 15" "p_price laptop = 1200"
    by (simp_all add: phone_def laptop_def new_product_def example_insert_def)
  have base: "price_filters 15 1200\<lparr>f_minPrice := None, f_maxPrice := None,
      f_limit := None, f_offset := None\<rparr> = no_filters"
    by (simp add: price_filters_def no_filters_def)
  have unbounded: "getCatalogProducts shop no_filters = Inr [laptop, phone]"
    by code_simp
  have page: "truthy (f_limit (price_filters 15 1200)) = None"
      "truthy (f_offset (price_filters 15 1200)) = None"
    by (simp_all add: price_filters_def no_filters_def truthy_def)
  from catalog_price_range [OF lo hi, of shop]
  obtain rows where rows: "getCatalogProducts shop no_filters = Inr rows"
    and res: "getCatalogProducts shop (price_filters 15 1200)
       = Inr (filter (\<lambda>p. 15 \<le> p_price p \<and> p_price p \<le> 1200) rows)"
    unfolding base using page by blast
  from rows unbounded have "rows = [laptop, phone]"
    by simp
  with res have "getCatalogProducts shop (price_filters 15 1200) = Inr [laptop, phone]"
    by (simp add: prices)
  with lo hi prices unbounded show ?thesis
    by blast
qed

section \<open>The wishlist\<close>

lemma find_append_new:
  "find P xs = None \<Longrightarrow> P y \<Longrightarrow> find P (xs @ [y]) = Some y"
  by (induction xs) (auto split: if_splits)

lemma find_member: "find P xs = Some x \<Longrightarrow> x \<in> set xs \<and> P x"
  by (induction xs) (auto split: if_splits)

lemma find_exists: "(\<exists>x\<in>set xs. P x) \<Longrightarrow> \<exists>x. find P xs = Some x"
  by (induction xs) auto

lemma addToWishlist_existing:
  "find (wishlist_match sessionId productId) (wishlist s) = Some w
   \<Longrightarrow> addToWishlist s now sessionId productId = (s, Inr w)"
  by (simp add: addToWishlist_def)

lemma addToWishlist_twice:
  "addToWishlist (fst (addToWishlist s now sessionId productId)) now' sessionId productId
     = addToWishlist s now sessionId productId"
proof (cases "find (wishlist_match sessionId productId) (wishlist s)")
  case (Some w)
  then show ?thesis by (simp add: addToWishlist_existing)
next
  case None
  show ?thesis
  proof (cases "list_ex (\<lambda>p. p_id p = productId) (products s)")
    case False
    with None show ?thesis by (simp add: addToWishlist_def)
  next
    case True
    define row where "row = \<lparr> w_id = next_id (seq_wishlist s) (map w_id (wishlist s)),
        w_sessionId = sessionId, w_productId = productId, w_createdAt = now \<rparr>"
    define s1 where "s1 = s\<lparr>wishlist := wishlist s @ [row],
        seq_wishlist := next_id (seq_wishlist s) (map w_id (wishlist s))\<rparr>"
    have first: "addToWishlist s now sessionId productId = (s1, Inr row)"
      using None True by (simp add: addToWishlist_def Let_def row_def s1_def)
    have "wishlist_match sessionId productId row"
      by (simp add: wishlist_match_def row_def)
    with None have "find (wishlist_match sessionId productId) (wishlist s1) = Some row"
      by (simp add: s1_def find_append_new)
    then have "addToWishlist s1 now' sessionId productId = (s1, Inr row)"
      by (rule addToWishlist_existing)
    with first show ?thesis by simp
  qed
qed

lemma addToWishlist_inserts:
  assumes "find (wishlist_match sessionId productId) (wishlist s) = None"
    and "list_ex (\<lambda>p. p_id p = productId) (products s)"
  shows "\<exists>row. addToWishlist s now sessionId productId
            = (s\<lparr>wishlist := wishlist s @ [row], seq_wishlist := w_id row\<rparr>, Inr row)
          \<and> wishlist_match sessionId productId row"
  using assms by (simp add: addToWishlist_def Let_def wishlist_match_def)

lemma removeFromWishlist_result:
  "snd (removeFromWishlist s sessionId productId)
     \<longleftrightarrow> (\<exists>w\<in>set (wishlist s). wishlist_match sessionId productId w)"
  by (simp add: removeFromWishlist_def sql_count_def Let_def filter_empty_conv)

lemma removeFromWishlist_rows:
  "wishlist (fst (removeFromWishlist s sessionId productId))
     = filter (\<lambda>w. \<not> wishlist_match sessionId productId w) (wishlist s)"
  by (simp add: removeFromWishlist_def Let_def)

lemma removeFromWishlist_absent:
  assumes "\<forall>w\<in>set (wishlist s). \<not> wishlist_match sessionId productId w"
  shows "removeFromWishlist s sessionId productId = (s, False)"
proof -
  have "filter (\<lambda>w. \<not> wishlist_match sessionId productId w) (wishlist s) = wishlist s"
    using assms by (simp add: filter_id_conv)
  moreover have "filter (wishlist_match sessionId productId) (wishlist s) = []"
    using assms by (simp add: filter_empty_conv)
  ultimately show ?thesis
    by (simp add: removeFromWishlist_def sql_count_def Let_def)
qed

text \<open>
  C8. \<open>addToWishlist\<close>: when a row for the pair exists the call returns that row (the
  first one) and leaves the store as it is; a second call, at any time, has the
  result of the first and leaves the store as the first left it, so that two calls
  return the same row (and, when no product has that id, the same foreign-key
  error). When the product exists the call returns a row for the pair, and that row
  is in the wishlist. \<open>removeFromWishlist\<close> deletes the rows of the pair and returns
  true exactly when there was one, that is, exactly when the wishlist got shorter;
  for a pair that is not in the wishlist it returns false and leaves the store as it
  is.
\<close>

theorem wishlist_idempotent:
  "((\<exists>w\<in>set (wishlist s). wishlist_match sessionId productId w) \<longrightarrow>
      (\<exists>w\<in>set (wishlist s). wishlist_match sessionId productId w \<and>
         addToWishlist s now sessionId productId = (s, Inr w))) \<and>
   addToWishlist (fst (addToWishlist s now sessionId productId)) now' sessionId productId
     = addToWishlist s now sessionId productId \<and>
   (list_ex (\<lambda>p. p_id p = productId) (products s) \<longrightarrow>
      (\<exists>row. snd (addToWishlist s now sessionId productId) = Inr row \<and>
         wishlist_match sessionId productId row \<and>
         row \<in> set (wishlist (fst (addToWishlist s now sessionId productId))))) \<and>
   (snd (removeFromWishlist s sessionId productId)
      \<longleftrightarrow> (\<exists>w\<in>set (wishlist s). wishlist_match sessionId productId w)) \<and>
   (snd (removeFromWishlist s sessionId productId)
      \<longleftrightarrow> length (wishlist (fst (removeFromWishlist s sessionId productId)))
            < length (wishlist s)) \<and>
   wishlist (fst (removeFromWishlist s sessionId productId))
     = filter (\<lambda>w. \<not> wishlist_match sessionId productId w) (wishlist s) \<and>
   ((\<forall>w\<in>set (wishlist s). \<not> wishlist_match sessionId productId w) \<longrightarrow>
      removeFromWishlist s sessionId productId = (s, False))"
proof (intro conjI impI)
  assume "\<exists>w\<in>set (wishlist s). wishlist_match sessionId productId w"
  then obtain w where w: "find (wishlist_match sessionId productId) (wishlist s) = Some w"
    using find_exists by fastforce
  then have "w \<in> set (wishlist s) \<and> wishlist_match sessionId productId w"
    by (rule find_member)
  with addToWishlist_existing [OF w]
  show "\<exists>w\<in>set (wishlist s). wishlist_match sessionId productId w \<and>
         addToWishlist s now sessionId productId = (s, Inr w)"
    by blast
next
  show "addToWishlist (fst (addToWishlist s now sessionId productId)) now' sessionId productId
     = addToWishlist s now sessionId productId"
    by (rule addToWishlist_twice)
next
  assume prod: "list_ex (\<lambda>p. p_id p = productId) (products s)"
  show "\<exists>row. snd (addToWishlist s now sessionId productId) = Inr row \<and>
         wishlist_match sessionId productId row \<and>
         row \<in> set (wishlist (fst (addToWishlist s now sessionId productId)))"
  proof (cases "find (wishlist_match sessionId productId) (wishlist s)")
    case None
    from addToWishlist_inserts [OF None prod, of now] show ?thesis
      by auto
  next
    case (Some w)
    with find_member [OF Some] show ?thesis
      by (simp add: addToWishlist_existing)
  qed
next
  show "snd (removeFromWishlist s sessionId productId)
      \<longleftrightarrow> (\<exists>w\<in>set (wishlist s). wishlist_match sessionId productId w)"
    by (rule removeFromWishlist_result)
next
  show "snd (removeFromWishlist s sessionId productId)
      \<longleftrightarrow> length (wishlist (fst (removeFromWishlist s sessionId productId)))
            < length (wishlist s)"
  proof -
    have "length (filter (\<lambda>w. \<not> P w) xs) < length xs \<longleftrightarrow> (\<exists>w\<in>set xs. P w)"
      for P :: "wishlistItem \<Rightarrow> bool" and xs
    proof (induction xs)
      case Nil
      show ?case by simp
    next
      case (Cons x xs)
      have "length (filter (\<lambda>w. \<not> P w) xs) \<le> length xs"
        by (rule length_filter_le)
      with Cons show ?case
        by (cases "P x") auto
    qed
    then show ?thesis
      unfolding removeFromWishlist_result removeFromWishlist_rows by simp
  qed
next
  show "wishlist (fst (removeFromWishlist s sessionId productId))
     = filter (\<lambda>w. \<not> wishlist_match sessionId productId w) (wishlist s)"
    by (rule removeFromWishlist_rows)
next
  assume "\<forall>w\<in>set (wishlist s). \<not> wishlist_match sessionId productId w"
  then show "removeFromWishlist s sessionId productId = (s, False)"
    by (rule removeFromWishlist_absent)
qed

theorem wishlist_idempotent_witness:
  "list_ex (\<lambda>p. p_id p = 1) (products shop) \<and>
   addToWishlist shop 1700000500 ''visitor'' 1 = (shop_wish, Inr wish_row) \<and>
   addToWishlist shop_wish 1700000600 ''visitor'' 1 = (shop_wish, Inr wish_row) \<and>
   wishlist shop_wish = [wish_row] \<and>
   list_ex (wishlist_match ''visitor'' 1) (wishlist shop_wish) \<and>
   snd (removeFromWishlist shop_wish ''visitor'' 1) = True \<and>
   wishlist (fst (removeFromWishlist shop_wish ''visitor'' 1)) = [] \<and>
   list_all (\<lambda>w. \<not> wishlist_match ''visitor'' 1 w) (wishlist shop) \<and>
   removeFromWishlist shop ''visitor'' 1 = (shop, False)"
proof -
  have prod: "list_ex (\<lambda>p. p_id p = 1) (products shop)"
    by (simp add: shop_products new_product_def)
  have empty: "wishlist shop = []"
    by code_simp
  have res: "snd (addToWishlist shop 1700000500 ''visitor'' 1) = Inr wish_row"
    by code_simp
  have first: "addToWishlist shop 1700000500 ''visitor'' 1 = (shop_wish, Inr wish_row)"
    unfolding shop_wish_def res [symmetric] by simp
  have rows: "wishlist shop_wish = [wish_row]"
    by code_simp
  have member: "wishlist_match ''visitor'' 1 wish_row"
    by (simp add: wishlist_match_def wish_row_def)
  note one = wishlist_idempotent [where s = shop and sessionId = "''visitor''" and productId = 1
      and now = 1700000500 and now' = 1700000600]
  note two = wishlist_idempotent [where s = shop_wish and sessionId = "''visitor''" and productId = 1]
  from one have "addToWishlist (fst (addToWishlist shop 1700000500 ''visitor'' 1)) 1700000600 ''visitor'' 1
      = addToWishlist shop 1700000500 ''visitor'' 1"
    by blast
  then have second: "addToWishlist shop_wish 1700000600 ''visitor'' 1 = (shop_wish, Inr wish_row)"
    unfolding first by simp
  from two have "snd (removeFromWishlist shop_wish ''visitor'' 1)
      \<longleftrightarrow> (\<exists>w\<in>set (wishlist shop_wish). wishlist_match ''visitor'' 1 w)"
    by blast
  then have removed: "snd (removeFromWishlist shop_wish ''visitor'' 1) = True"
    using member by (simp add: rows)
  from two have "wishlist (fst (removeFromWishlist shop_wish ''visitor'' 1))
     = filter (\<lambda>w. \<not> wishlist_match ''visitor'' 1 w) (wishlist shop_wish)"
    by blast
  then have gone: "wishlist (fst (removeFromWishlist shop_wish ''visitor'' 1)) = []"
    using member by (simp add: rows)
  from one have "(\<forall>w\<in>set (wishlist shop). \<not> wishlist_match ''visitor'' 1 w) \<longrightarrow>
      removeFromWishlist shop ''visitor'' 1 = (shop, False)"
    by blast
  then have absent: "removeFromWishlist shop ''visitor'' 1 = (shop, False)"
    by (simp add: empty)
  show ?thesis
    using prod first second rows member removed gone absent by (simp add: empty)
qed

section \<open>Receipts: what is written, and when\<close>

lemma item_data_new: "item_data (new_receiptItem i item) = item"
  by (simp add: item_data_def new_receiptItem_def)

lemma insert_items_prefix:
  assumes "list_ex (\<lambda>r. r_id r = rid) (receipts s)"
  shows "\<exists>rows sq.
     fst (insert_items s rid items)
       = s\<lparr>receiptItems := receiptItems s @ rows, seq_receiptItems := sq\<rparr> \<and>
     map item_data rows
       = map (\<lambda>item. item\<lparr>iri_receiptId := rid\<rparr>) (takeWhile (product_exists s) items) \<and>
     snd (insert_items s rid items)
       = (if list_all (product_exists s) items then Inr () else Inl ForeignKeyConstraint)"
  using assms
proof (induction items arbitrary: s)
  case Nil
  have "s = s\<lparr>receiptItems := receiptItems s @ [], seq_receiptItems := seq_receiptItems s\<rparr>"
    by simp
  then show ?case
    by (intro exI [of _ "[]"] exI [of _ "seq_receiptItems s"]) simp
next
  case (Cons item items)
  show ?case
  proof (cases "product_exists s item")
    case False
    have "s = s\<lparr>receiptItems := receiptItems s @ [], seq_receiptItems := seq_receiptItems s\<rparr>"
      by simp
    with False show ?thesis
      by (intro exI [of _ "[]"] exI [of _ "seq_receiptItems s"])
        (simp add: insert_receiptItem_def product_exists_def)
  next
    case True
    define i where "i = next_id (seq_receiptItems s) (map ri_id (receiptItems s))"
    define row where "row = new_receiptItem i (item\<lparr>iri_receiptId := rid\<rparr>)"
    define s1 where "s1 = s\<lparr>receiptItems := receiptItems s @ [row], seq_receiptItems := i\<rparr>"
    have step: "insert_receiptItem s (item\<lparr>iri_receiptId := rid\<rparr>) = (s1, Inr ())"
      using True Cons.prems
      by (simp add: insert_receiptItem_def product_exists_def Let_def s1_def row_def i_def)
    have same: "product_exists s1 = product_exists s"
      by (rule ext) (simp add: product_exists_def s1_def)
    have "list_ex (\<lambda>r. r_id r = rid) (receipts s1)"
      using Cons.prems by (simp add: s1_def)
    from Cons.IH [OF this] obtain rows sq where
      st: "fst (insert_items s1 rid items)
         = s1\<lparr>receiptItems := receiptItems s1 @ rows, seq_receiptItems := sq\<rparr>"
      and dt: "map item_data rows
         = map (\<lambda>item. item\<lparr>iri_receiptId := rid\<rparr>) (takeWhile (product_exists s) items)"
      and rs: "snd (insert_items s1 rid items)
         = (if list_all (product_exists s) items then Inr () else Inl ForeignKeyConstraint)"
      unfolding same by blast
    have run: "insert_items s rid (item # items) = insert_items s1 rid items"
      by (simp add: step)
    have st': "fst (insert_items s rid (item # items))
         = s\<lparr>receiptItems := receiptItems s @ (row # rows), seq_receiptItems := sq\<rparr>"
      unfolding run st by (simp add: s1_def)
    have dt': "map item_data (row # rows)
         = map (\<lambda>item. item\<lparr>iri_receiptId := rid\<rparr>) (takeWhile (product_exists s) (item # items))"
      using True dt by (simp add: row_def item_data_new)
    have rs': "snd (insert_items s rid (item # items))
         = (if list_all (product_exists s) (item # items) then Inr () else Inl ForeignKeyConstraint)"
      unfolding run rs using True by simp
    from st' dt' rs' show ?thesis
      by blast
  qed
qed

lemma takeWhile_all_length:
  "length (takeWhile P xs) = length xs \<longleftrightarrow> list_all P xs"
proof (induction xs)
  case Nil
  show ?case by simp
next
  case (Cons x xs)
  have "length (takeWhile P xs) \<le> length xs"
    by (rule length_takeWhile_le)
  with Cons show ?case
    by (cases "P x") auto
qed

lemma createReceipt_duplicate:
  assumes "list_ex (\<lambda>x. r_receiptNumber x = ir_receiptNumber receipt) (receipts s)"
  shows "createReceipt s now receipt items = (s, Inl UniqueConstraint)"
  using assms by (simp add: createReceipt_def insert_receipt_def)

lemma createReceipt_fresh:
  assumes "\<not> list_ex (\<lambda>x. r_receiptNumber x = ir_receiptNumber receipt) (receipts s)"
  shows "\<exists>rows sq.
     fst (createReceipt s now receipt items)
       = s\<lparr>receipts := receipts s @ [receipt_row s now receipt],
            seq_receipts := r_id (receipt_row s now receipt),
            receiptItems := receiptItems s @ rows, seq_receiptItems := sq\<rparr> \<and>
     map item_data rows
       = map (\<lambda>item. item\<lparr>iri_receiptId := r_id (receipt_row s now receipt)\<rparr>)
           (takeWhile (product_exists s) items) \<and>
     snd (createReceipt s now receipt items)
       = (if list_all (product_exists s) items then Inr (receipt_row s now receipt)
          else Inl ForeignKeyConstraint)"
proof -
  define hdr where "hdr = receipt_row s now receipt"
  define s1 where "s1 = s\<lparr>receipts := receipts s @ [hdr], seq_receipts := r_id hdr\<rparr>"
  have hid: "r_id hdr = next_id (seq_receipts s) (map r_id (receipts s))"
    by (simp add: hdr_def receipt_row_def new_receipt_def)
  have header: "insert_receipt s now receipt = (s1, Inr hdr)"
    using assms by (simp add: insert_receipt_def Let_def s1_def hid) (simp add: hdr_def receipt_row_def)
  have same: "product_exists s1 = product_exists s"
    by (rule ext) (simp add: product_exists_def s1_def)
  have "list_ex (\<lambda>r. r_id r = r_id hdr) (receipts s1)"
    by (simp add: s1_def)
  from insert_items_prefix [OF this, of items] obtain rows sq where
    st: "fst (insert_items s1 (r_id hdr) items)
       = s1\<lparr>receiptItems := receiptItems s1 @ rows, seq_receiptItems := sq\<rparr>"
    and dt: "map item_data rows
       = map (\<lambda>item. item\<lparr>iri_receiptId := r_id hdr\<rparr>) (takeWhile (product_exists s) items)"
    and rs: "snd (insert_items s1 (r_id hdr) items)
       = (if list_all (product_exists s) items then Inr () else Inl ForeignKeyConstraint)"
    unfolding same by blast
  have f: "fst (createReceipt s now receipt items) = fst (insert_items s1 (r_id hdr) items)"
    by (simp add: createReceipt_def header split: prod.split sum.split)
  have r: "snd (createReceipt s now receipt items)
      = (case snd (insert_items s1 (r_id hdr) items) of Inl e \<Rightarrow> Inl e | Inr _ \<Rightarrow> Inr hdr)"
    by (simp add: createReceipt_def header split: prod.split sum.split)
  have st': "fst (createReceipt s now receipt items)
       = s\<lparr>receipts := receipts s @ [hdr], seq_receipts := r_id hdr,
            receiptItems := receiptItems s @ rows, seq_receiptItems := sq\<rparr>"
    unfolding f st by (simp add: s1_def)
  have rs': "snd (createReceipt s now receipt items)
       = (if list_all (product_exists s) items then Inr hdr else Inl ForeignKeyConstraint)"
    unfolding r rs by simp
  from st' dt rs' show ?thesis
    unfolding hdr_def by blast
qed

text \<open>
  C3, as stated, fails: with a second item whose product does not exist the call
  raises, and the header and the first item stay in the store.
\<close>

theorem createReceipt_atomic_counterexample:
  "snd (createReceipt shop 1700000700 sale_header [sale_laptop, sale_phone\<lparr>iri_productId := 99\<rparr>])
     = Inl ForeignKeyConstraint \<and>
   map r_receiptNumber
     (receipts (fst (createReceipt shop 1700000700 sale_header
        [sale_laptop, sale_phone\<lparr>iri_productId := 99\<rparr>]))) = [''RCP-0001''] \<and>
   map ri_productId
     (receiptItems (fst (createReceipt shop 1700000700 sale_header
        [sale_laptop, sale_phone\<lparr>iri_productId := 99\<rparr>]))) = [1] \<and>
   receipts shop = [] \<and> receiptItems shop = [] \<and>
   \<not> all_or_nothing shop [sale_laptop, sale_phone\<lparr>iri_productId := 99\<rparr>]
       (fst (createReceipt shop 1700000700 sale_header
          [sale_laptop, sale_phone\<lparr>iri_productId := 99\<rparr>]))"
proof -
  have a: "snd (createReceipt shop 1700000700 sale_header [sale_laptop, sale_phone\<lparr>iri_productId := 99\<rparr>])
     = Inl ForeignKeyConstraint"
    by code_simp
  have b: "map r_receiptNumber
     (receipts (fst (createReceipt shop 1700000700 sale_header
        [sale_laptop, sale_phone\<lparr>iri_productId := 99\<rparr>]))) = [''RCP-0001'']"
    by code_simp
  have c: "map ri_productId
     (receiptItems (fst (createReceipt shop 1700000700 sale_header
        [sale_laptop, sale_phone\<lparr>iri_productId := 99\<rparr>]))) = [1]"
    by code_simp
  have d: "receipts shop = []" "receiptItems shop = []"
    by code_simp+
  from b have b': "length (receipts (fst (createReceipt shop 1700000700 sale_header
        [sale_laptop, sale_phone\<lparr>iri_productId := 99\<rparr>]))) = 1"
    by (metis length_map length_Cons list.size(3) One_nat_def)
  from c have c': "length (receiptItems (fst (createReceipt shop 1700000700 sale_header
        [sale_laptop, sale_phone\<lparr>iri_productId := 99\<rparr>]))) = 1"
    by (metis length_map length_Cons list.size(3) One_nat_def)
  have e: "\<not> all_or_nothing shop [sale_laptop, sale_phone\<lparr>iri_productId := 99\<rparr>]
       (fst (createReceipt shop 1700000700 sale_header
          [sale_laptop, sale_phone\<lparr>iri_productId := 99\<rparr>]))"
    unfolding all_or_nothing_def d using b' c' by auto
  from a b c d e show ?thesis
    by blast
qed

text \<open>
  C3, amended. \<open>createReceipt\<close> writes the header and then the items one by one, with
  no transaction. If the receipt number is taken, nothing is written and the call
  raises. Otherwise the header is written, and the items, each with the id of the new
  receipt, in order up to the first one whose product does not exist; nothing else in
  the store changes. The call returns the new receipt exactly when every item was
  written; otherwise it raises, and the header and the items before the failing one
  stay. A call that returns has written the header and all items.
\<close>

theorem createReceipt_stepwise:
  "(list_ex (\<lambda>x. r_receiptNumber x = ir_receiptNumber receipt) (receipts s) \<longrightarrow>
      createReceipt s now receipt items = (s, Inl UniqueConstraint)) \<and>
   (\<not> list_ex (\<lambda>x. r_receiptNumber x = ir_receiptNumber receipt) (receipts s) \<longrightarrow>
      (\<exists>rows sq.
         fst (createReceipt s now receipt items)
           = s\<lparr>receipts := receipts s @ [receipt_row s now receipt],
                seq_receipts := r_id (receipt_row s now receipt),
                receiptItems := receiptItems s @ rows, seq_receiptItems := sq\<rparr> \<and>
         map item_data rows
           = map (\<lambda>item. item\<lparr>iri_receiptId := r_id (receipt_row s now receipt)\<rparr>)
               (takeWhile (product_exists s) items) \<and>
         snd (createReceipt s now receipt items)
           = (if list_all (product_exists s) items then Inr (receipt_row s now receipt)
              else Inl ForeignKeyConstraint) \<and>
         (snd (createReceipt s now receipt items) = Inr (receipt_row s now receipt)
            \<longleftrightarrow> length rows = length items))) \<and>
   ((\<exists>r. snd (createReceipt s now receipt items) = Inr r) \<longrightarrow>
      all_or_nothing s items (fst (createReceipt s now receipt items)))"
proof (intro conjI impI)
  assume "list_ex (\<lambda>x. r_receiptNumber x = ir_receiptNumber receipt) (receipts s)"
  then show "createReceipt s now receipt items = (s, Inl UniqueConstraint)"
    by (rule createReceipt_duplicate)
next
  assume "\<not> list_ex (\<lambda>x. r_receiptNumber x = ir_receiptNumber receipt) (receipts s)"
  from createReceipt_fresh [OF this, of now items] obtain rows sq where
    st: "fst (createReceipt s now receipt items)
           = s\<lparr>receipts := receipts s @ [receipt_row s now receipt],
                seq_receipts := r_id (receipt_row s now receipt),
                receiptItems := receiptItems s @ rows, seq_receiptItems := sq\<rparr>"
    and dt: "map item_data rows
           = map (\<lambda>item. item\<lparr>iri_receiptId := r_id (receipt_row s now receipt)\<rparr>)
               (takeWhile (product_exists s) items)"
    and rs: "snd (createReceipt s now receipt items)
           = (if list_all (product_exists s) items then Inr (receipt_row s now receipt)
              else Inl ForeignKeyConstraint)"
    by blast
  have "length rows = length (takeWhile (product_exists s) items)"
    using dt by (metis length_map)
  then have "length rows = length items \<longleftrightarrow> list_all (product_exists s) items"
    by (simp add: takeWhile_all_length)
  with rs have "snd (createReceipt s now receipt items) = Inr (receipt_row s now receipt)
      \<longleftrightarrow> length rows = length items"
    by simp
  with st dt rs show "\<exists>rows sq.
         fst (createReceipt s now receipt items)
           = s\<lparr>receipts := receipts s @ [receipt_row s now receipt],
                seq_receipts := r_id (receipt_row s now receipt),
                receiptItems := receiptItems s @ rows, seq_receiptItems := sq\<rparr> \<and>
         map item_data rows
           = map (\<lambda>item. item\<lparr>iri_receiptId := r_id (receipt_row s now receipt)\<rparr>)
               (takeWhile (product_exists s) items) \<and>
         snd (createReceipt s now receipt items)
           = (if list_all (product_exists s) items then Inr (receipt_row s now receipt)
              else Inl ForeignKeyConstraint) \<and>
         (snd (createReceipt s now receipt items) = Inr (receipt_row s now receipt)
            \<longleftrightarrow> length rows = length items)"
    by blast
next
  assume ok: "\<exists>r. snd (createReceipt s now receipt items) = Inr r"
  show "all_or_nothing s items (fst (createReceipt s now receipt items))"
  proof (cases "list_ex (\<lambda>x. r_receiptNumber x = ir_receiptNumber receipt) (receipts s)")
    case True
    from createReceipt_duplicate [OF True, of now items] ok show ?thesis
      by simp
  next
    case False
    from createReceipt_fresh [OF False, of now items] obtain rows sq where
      st: "fst (createReceipt s now receipt items)
           = s\<lparr>receipts := receipts s @ [receipt_row s now receipt],
                seq_receipts := r_id (receipt_row s now receipt),
                receiptItems := receiptItems s @ rows, seq_receiptItems := sq\<rparr>"
      and dt: "map item_data rows
           = map (\<lambda>item. item\<lparr>iri_receiptId := r_id (receipt_row s now receipt)\<rparr>)
               (takeWhile (product_exists s) items)"
      and rs: "snd (createReceipt s now receipt items)
           = (if list_all (product_exists s) items then Inr (receipt_row s now receipt)
              else Inl ForeignKeyConstraint)"
      by blast
    from ok rs have "list_all (product_exists s) items"
      by (auto split: if_splits)
    then have "length (takeWhile (product_exists s) items) = length items"
      by (simp add: takeWhile_all_length)
    moreover have "length rows = length (takeWhile (product_exists s) items)"
      using dt by (metis length_map)
    ultimately show ?thesis
      by (simp add: all_or_nothing_def st)
  qed
qed

theorem createReceipt_stepwise_witness:
  "\<not> list_ex (\<lambda>x. r_receiptNumber x = ir_receiptNumber sale_header) (receipts shop) \<and>
   list_all (product_exists shop) [sale_laptop, sale_phone] \<and>
   createReceipt shop 1700000700 sale_header [sale_laptop, sale_phone]
     = (shop_sold, Inr (receipt_row shop 1700000700 sale_header)) \<and>
   all_or_nothing shop [sale_laptop, sale_phone] shop_sold \<and>
   list_ex (\<lambda>x. r_receiptNumber x = ir_receiptNumber sale_header) (receipts shop_sold) \<and>
   createReceipt shop_sold 1700000800 sale_header [sale_laptop] = (shop_sold, Inl UniqueConstraint)"
proof -
  have fresh: "\<not> list_ex (\<lambda>x. r_receiptNumber x = ir_receiptNumber sale_header) (receipts shop)"
    by code_simp
  have prods: "list_all (product_exists shop) [sale_laptop, sale_phone]"
    by code_simp
  have taken: "list_ex (\<lambda>x. r_receiptNumber x = ir_receiptNumber sale_header) (receipts shop_sold)"
    by code_simp
  note one = createReceipt_stepwise [where s = shop and now = 1700000700 and receipt = sale_header
      and items = "[sale_laptop, sale_phone]"]
  note two = createReceipt_stepwise [where s = shop_sold and now = 1700000800 and receipt = sale_header
      and items = "[sale_laptop]"]
  from one fresh prods
  have res: "snd (createReceipt shop 1700000700 sale_header [sale_laptop, sale_phone])
      = Inr (receipt_row shop 1700000700 sale_header)"
    by auto
  then have whole: "createReceipt shop 1700000700 sale_header [sale_laptop, sale_phone]
     = (shop_sold, Inr (receipt_row shop 1700000700 sale_header))"
    unfolding shop_sold_def by (metis prod.collapse)
  from one res have aon: "all_or_nothing shop [sale_laptop, sale_phone] shop_sold"
    unfolding shop_sold_def by blast
  from two taken have dup: "createReceipt shop_sold 1700000800 sale_header [sale_laptop]
      = (shop_sold, Inl UniqueConstraint)"
    by blast
  from fresh prods whole aon taken dup show ?thesis
    by blast
qed








section \<open>The deletion of a product\<close>

text \<open>
  C5, as stated, fails: the laptop has been sold, so a receipt item references it, and
  deleting it is refused; its image, its review and its wishlist entry stay, and so
  does the product.
\<close>

theorem deleteProduct_cascade_counterexample:
  "deleteProduct shop_full 1 = (shop_full, Inl ForeignKeyConstraint) \<and>
   map ri_productId (receiptItems shop_full) = [1, 2] \<and>
   map p_id (products shop_full) = [1, 2, 3] \<and>
   map pi_productId (productImages shop_full) = [1, 3] \<and>
   map pr_productId (productReviews shop_full) = [1, 3] \<and>
   map w_productId (wishlist shop_full) = [1, 3]"
proof -
  have a: "map ri_productId (receiptItems shop_full) = [1, 2]"
    by code_simp
  have b: "map p_id (products shop_full) = [1, 2, 3]"
    by code_simp
  have c: "map pi_productId (productImages shop_full) = [1, 3]"
    by code_simp
  have d: "map pr_productId (productReviews shop_full) = [1, 3]"
    by code_simp
  have e: "map w_productId (wishlist shop_full) = [1, 3]"
    by code_simp
  have "list_ex (\<lambda>p. p_id p = 1) (products shop_full)"
    and "list_ex (\<lambda>it. ri_productId it = 1) (receiptItems shop_full)"
    by code_simp+
  then have "deleteProduct shop_full 1 = (shop_full, Inl ForeignKeyConstraint)"
    by (simp add: deleteProduct_def)
  with a b c d e show ?thesis
    by blast
qed

text \<open>
  C5, amended. Deleting a product never changes a receipt or a receipt item. A
  product that a receipt item references cannot be deleted: the call raises and the
  store stays as it is, the product's images, reviews and wishlist rows included.
  Deleting a product that no receipt item references returns true and removes the
  product with its images, reviews and wishlist rows, and no row of another product.
  The call returns true exactly when the product exists and no receipt item
  references it, so a deletion leaves no receipt item without its product.
\<close>

theorem deleteProduct_outcome:
  "receipts (fst (deleteProduct s i)) = receipts s \<and>
   receiptItems (fst (deleteProduct s i)) = receiptItems s \<and>
   (list_ex (\<lambda>p. p_id p = i) (products s) \<and> list_ex (\<lambda>it. ri_productId it = i) (receiptItems s)
      \<longrightarrow> deleteProduct s i = (s, Inl ForeignKeyConstraint)) \<and>
   (snd (deleteProduct s i) = Inr True \<longleftrightarrow>
      list_ex (\<lambda>p. p_id p = i) (products s) \<and> \<not> list_ex (\<lambda>it. ri_productId it = i) (receiptItems s)) \<and>
   (snd (deleteProduct s i) = Inr True \<longrightarrow>
      \<not> list_ex (\<lambda>p. p_id p = i) (products (fst (deleteProduct s i))) \<and>
      \<not> list_ex (\<lambda>x. pi_productId x = i) (productImages (fst (deleteProduct s i))) \<and>
      \<not> list_ex (\<lambda>x. pr_productId x = i) (productReviews (fst (deleteProduct s i))) \<and>
      \<not> list_ex (\<lambda>x. w_productId x = i) (wishlist (fst (deleteProduct s i))) \<and>
      filter (\<lambda>p. p_id p \<noteq> i) (products (fst (deleteProduct s i)))
        = filter (\<lambda>p. p_id p \<noteq> i) (products s) \<and>
      filter (\<lambda>x. pi_productId x \<noteq> i) (productImages (fst (deleteProduct s i)))
        = filter (\<lambda>x. pi_productId x \<noteq> i) (productImages s) \<and>
      filter (\<lambda>x. pr_productId x \<noteq> i) (productReviews (fst (deleteProduct s i)))
        = filter (\<lambda>x. pr_productId x \<noteq> i) (productReviews s) \<and>
      filter (\<lambda>x. w_productId x \<noteq> i) (wishlist (fst (deleteProduct s i)))
        = filter (\<lambda>x. w_productId x \<noteq> i) (wishlist s)) \<and>
   (snd (deleteProduct s i) \<noteq> Inr True \<longrightarrow> fst (deleteProduct s i) = s) \<and>
   (\<not> dangling s \<longrightarrow> \<not> dangling (fst (deleteProduct s i)))"
proof -
  have not_ex: "\<not> list_ex P (filter (\<lambda>x. \<not> P x) xs)" for P :: "'a \<Rightarrow> bool" and xs
    by (simp add: list_ex_iff)
  have keep: "\<not> dangling s \<Longrightarrow> \<not> list_ex (\<lambda>it. ri_productId it = i) (receiptItems s)
      \<Longrightarrow> \<not> dangling (s\<lparr> products := filter (\<lambda>p. p_id p \<noteq> i) (products s),
               productImages := filter (\<lambda>x. pi_productId x \<noteq> i) (productImages s),
               productReviews := filter (\<lambda>x. pr_productId x \<noteq> i) (productReviews s),
               wishlist := filter (\<lambda>x. w_productId x \<noteq> i) (wishlist s) \<rparr>)"
    unfolding dangling_def list_ex_iff by simp metis
  show ?thesis
  proof (cases "list_ex (\<lambda>p. p_id p = i) (products s)")
    case False
    then show ?thesis
      by (simp add: deleteProduct_def)
  next
    case True
    show ?thesis
    proof (cases "list_ex (\<lambda>it. ri_productId it = i) (receiptItems s)")
      case referenced: True
      with True show ?thesis
        by (simp add: deleteProduct_def)
    next
      case free: False
      with True keep show ?thesis
        by (simp add: deleteProduct_def not_ex)
    qed
  qed
qed

theorem deleteProduct_outcome_witness:
  "list_ex (\<lambda>p. p_id p = 1) (products shop_full) \<and>
   list_ex (\<lambda>it. ri_productId it = 1) (receiptItems shop_full) \<and>
   deleteProduct shop_full 1 = (shop_full, Inl ForeignKeyConstraint) \<and>
   snd (deleteProduct shop_full 1) \<noteq> Inr True \<and>
   snd (deleteProduct shop_full 3) = Inr True \<and>
   map p_id (products (fst (deleteProduct shop_full 3))) = [1, 2] \<and>
   map pi_productId (productImages (fst (deleteProduct shop_full 3))) = [1] \<and>
   map pr_productId (productReviews (fst (deleteProduct shop_full 3))) = [1] \<and>
   map w_productId (wishlist (fst (deleteProduct shop_full 3))) = [1] \<and>
   receipts (fst (deleteProduct shop_full 3)) = receipts shop_full \<and>
   receiptItems (fst (deleteProduct shop_full 3)) = receiptItems shop_full \<and>
   \<not> dangling shop_full \<and>
   \<not> dangling (fst (deleteProduct shop_full 3))"
proof -
  have p1: "list_ex (\<lambda>p. p_id p = 1) (products shop_full)"
    and r1: "list_ex (\<lambda>it. ri_productId it = 1) (receiptItems shop_full)"
    and p3: "list_ex (\<lambda>p. p_id p = 3) (products shop_full)"
    and r3: "\<not> list_ex (\<lambda>it. ri_productId it = 3) (receiptItems shop_full)"
    and nd: "\<not> dangling shop_full"
    by code_simp+
  note one = deleteProduct_outcome [where s = shop_full and i = 1]
  note three = deleteProduct_outcome [where s = shop_full and i = 3]
  from one p1 r1 have a: "deleteProduct shop_full 1 = (shop_full, Inl ForeignKeyConstraint)"
    by blast
  then have b: "snd (deleteProduct shop_full 1) \<noteq> Inr True"
    by simp
  from three p3 r3 have c: "snd (deleteProduct shop_full 3) = Inr True"
    by blast
  have d: "map p_id (products (fst (deleteProduct shop_full 3))) = [1, 2]"
    "map pi_productId (productImages (fst (deleteProduct shop_full 3))) = [1]"
    "map pr_productId (productReviews (fst (deleteProduct shop_full 3))) = [1]"
    "map w_productId (wishlist (fst (deleteProduct shop_full 3))) = [1]"
    by code_simp+
  from three have e: "receipts (fst (deleteProduct shop_full 3)) = receipts shop_full"
    "receiptItems (fst (deleteProduct shop_full 3)) = receiptItems shop_full"
    by blast+
  from three nd have f: "\<not> dangling (fst (deleteProduct shop_full 3))"
    by blast
  from p1 r1 a b c d e nd f show ?thesis
    by blast
qed

end
